theory Spec2Isabelle
  imports Main "HOL-Library.Sublist" "HOL-Library.Char_ord" "HOL-Library.List_Lexorder"
    "HOL-Library.Monad_Syntax"
begin

section \<open>Python strings\<close>

text \<open>
  Python \<open>str\<close> and \<open>bytes\<close> values are modelled as \<open>string\<close> (lists of 8-bit characters):
  the request line is decoded as ISO-8859-1 and the headers are encoded as Latin-1, so one
  character is one code point below 256.
\<close>

definition CR :: char where
  "CR = CHR 0x0D"

definition LF :: char where
  "LF = CHR 0x0A"

definition CRLF :: string where
  "CRLF = [CR, LF]"

text \<open>
  \<open>str.lower\<close> on these code points: the ASCII capitals and the Latin-1 capitals 0xC0 to
  0xDE (0xD7, the multiplication sign, is not a letter) move up by 32.
\<close>

definition lower_char :: "char \<Rightarrow> char" where
  "lower_char c =
     (let n = (of_char c :: nat)
      in if (65 \<le> n \<and> n \<le> 90) \<or> (192 \<le> n \<and> n \<le> 222 \<and> n \<noteq> 215) then char_of (n + 32) else c)"

definition lower :: "string \<Rightarrow> string" where
  "lower s = map lower_char s"

text \<open>\<open>s.rfind(c)\<close>: the index of the last occurrence of \<open>c\<close>, or \<open>-1\<close>.\<close>

definition rfind :: "string \<Rightarrow> char \<Rightarrow> int" where
  "rfind s c =
     (if c \<in> set s then int (length s) - 1 - int (length (takeWhile (\<lambda>x. x \<noteq> c) (rev s))) else - 1)"

text \<open>\<open>s.split(c)\<close> for a one-character separator.\<close>

fun split_char :: "char \<Rightarrow> string \<Rightarrow> string list" where
  "split_char c [] = [[]]"
| "split_char c (x # xs) =
     (if x = c then [] # split_char c xs
      else (case split_char c xs of [] \<Rightarrow> [[x]] | w # ws \<Rightarrow> (x # w) # ws))"

text \<open>\<open>sep.join(words)\<close> for a one-character separator.\<close>

fun join_char :: "char \<Rightarrow> string list \<Rightarrow> string" where
  "join_char c [] = []"
| "join_char c [w] = w"
| "join_char c (w # ws) = w @ c # join_char c ws"

text \<open>
  \<open>str.isspace\<close> on the characters of ISO-8859-1: TAB, LF, VT, FF, CR, the separators
  0x1C to 0x1F, the space, NEL (0x85) and the no-break space (0xA0).
\<close>

definition isspace :: "char \<Rightarrow> bool" where
  "isspace c =
     (let n = (of_char c :: nat)
      in (9 \<le> n \<and> n \<le> 13) \<or> (28 \<le> n \<and> n \<le> 32) \<or> n = 133 \<or> n = 160)"

text \<open>\<open>s.split()\<close>: the maximal runs of non-whitespace characters.\<close>

fun split_ws_acc :: "string \<Rightarrow> string \<Rightarrow> string list" where
  "split_ws_acc w [] = (if w = [] then [] else [w])"
| "split_ws_acc w (x # xs) =
     (if isspace x then (if w = [] then split_ws_acc [] xs else w # split_ws_acc [] xs)
      else split_ws_acc (w @ [x]) xs)"

definition split_ws :: "string \<Rightarrow> string list" where
  "split_ws s = split_ws_acc [] s"

text \<open>\<open>s.rstrip(chars)\<close>, \<open>s.lstrip(chars)\<close> and \<open>s.rstrip()\<close>.\<close>

definition rstrip_chars :: "char list \<Rightarrow> string \<Rightarrow> string" where
  "rstrip_chars cs s = rev (dropWhile (\<lambda>x. x \<in> set cs) (rev s))"

definition lstrip_chars :: "char list \<Rightarrow> string \<Rightarrow> string" where
  "lstrip_chars cs s = dropWhile (\<lambda>x. x \<in> set cs) s"

definition rstrip :: "string \<Rightarrow> string" where
  "rstrip s = rev (dropWhile isspace (rev s))"

text \<open>\<open>str(n)\<close> and \<open>"%d" % n\<close> for a natural number: its decimal digits.\<close>

definition digit_char :: "nat \<Rightarrow> char" where
  "digit_char n = char_of (48 + n)"

function str_nat :: "nat \<Rightarrow> string" where
  "str_nat n = (if n < 10 then [digit_char n] else str_nat (n div 10) @ [digit_char (n mod 10)])"
  by pat_completeness auto
termination
  by (relation "measure id") auto

declare str_nat.simps [simp del]

text \<open>\<open>str.isdigit\<close> restricted to what \<open>int()\<close> accepts as well: the ASCII digits.\<close>

definition isdigit_char :: "char \<Rightarrow> bool" where
  "isdigit_char c = (48 \<le> (of_char c :: nat) \<and> (of_char c :: nat) \<le> 57)"

fun int_of_digits :: "nat \<Rightarrow> string \<Rightarrow> nat" where
  "int_of_digits acc [] = acc"
| "int_of_digits acc (c # cs) = int_of_digits (10 * acc + ((of_char c :: nat) - 48)) cs"

text \<open>\<open>s.encode('UTF-8')\<close> for code points below 256.\<close>

definition encode_utf8 :: "string \<Rightarrow> string" where
  "encode_utf8 s =
     concat (map (\<lambda>c. let n = (of_char c :: nat)
                        in if n < 128 then [c] else [char_of (192 + n div 64), char_of (128 + n mod 64)]) s)"

text \<open>\<open>html.escape(s, quote=False)\<close>.\<close>

definition html_escape :: "string \<Rightarrow> string" where
  "html_escape s =
     concat (map (\<lambda>c. if c = CHR ''&'' then ''&amp;''
                       else if c = CHR ''<'' then ''&lt;''
                       else if c = CHR ''>'' then ''&gt;''
                       else [c]) s)"

text \<open>
  The \<open>%\<close> operator on a format string and a tuple of arguments, for the conversions this
  program uses (\<open>%s\<close>, \<open>%d\<close> and \<open>%%\<close>). \<open>None\<close> is the \<open>TypeError\<close> or \<open>ValueError\<close> that
  Python raises when the arguments do not fit the format.
\<close>

datatype pyval = PyStr string | PyInt nat

fun str :: "pyval \<Rightarrow> string" where
  "str (PyStr s) = s"
| "str (PyInt n) = str_nat n"

fun percent :: "string \<Rightarrow> pyval list \<Rightarrow> string option" where
  "percent [] [] = Some []"
| "percent [] (a # args) = None"
| "percent (c # fmt) args =
     (if c \<noteq> CHR ''%'' then map_option ((#) c) (percent fmt args)
      else (case fmt of
              [] \<Rightarrow> None
            | d # fmt' \<Rightarrow>
                if d = CHR ''%'' then map_option ((#) (CHR ''%'')) (percent fmt' args)
                else if d = CHR ''s''
                then (case args of
                        [] \<Rightarrow> None
                      | a # args' \<Rightarrow> map_option ((@) (str a)) (percent fmt' args'))
                else if d = CHR ''d''
                then (case args of
                        PyInt n # args' \<Rightarrow> map_option ((@) (str_nat n)) (percent fmt' args')
                      | _ \<Rightarrow> None)
                else None))"

section \<open>posixpath\<close>

text \<open>
  \<open>genericpath._splitext(p, '/', None, '.')\<close>: the extension runs from the last dot of the
  last path component to the end; leading dots of that component do not start an
  extension. The loop looks for a character other than a dot between the component's start
  and the last dot.
\<close>

function has_nondot :: "string \<Rightarrow> nat \<Rightarrow> nat \<Rightarrow> bool" where
  "has_nondot p filenameIndex dotIndex =
     (if filenameIndex < dotIndex
      then (if take 1 (drop filenameIndex p) \<noteq> ''.'' then True
            else has_nondot p (filenameIndex + 1) dotIndex)
      else False)"
  by pat_completeness auto
termination
  by (relation "measure (\<lambda>(p, i, d). d - i)") auto

declare has_nondot.simps [simp del]

definition splitext :: "string \<Rightarrow> string \<times> string" where
  "splitext p =
     (let sepIndex = rfind p (CHR ''/'');
          dotIndex = rfind p (CHR ''.'')
      in if dotIndex > sepIndex \<and> has_nondot p (nat (sepIndex + 1)) (nat dotIndex)
         then (take (nat dotIndex) p, drop (nat dotIndex) p)
         else (p, []))"

text \<open>\<open>posixpath.join(a, b)\<close> with one component \<open>b\<close>.\<close>

definition os_path_join :: "string \<Rightarrow> string \<Rightarrow> string" where
  "os_path_join a b =
     (if prefix ''/'' b then b
      else if a = [] \<or> suffix ''/'' a then a @ b
      else a @ ''/'' @ b)"

text \<open>\<open>posixpath.normpath\<close>: the loop over the components keeps the new components in order.\<close>

fun normpath_comps :: "nat \<Rightarrow> string list \<Rightarrow> string list \<Rightarrow> string list" where
  "normpath_comps initial_slashes new_comps [] = new_comps"
| "normpath_comps initial_slashes new_comps (component # comps) =
     (if component = [] \<or> component = ''.'' then normpath_comps initial_slashes new_comps comps
      else if component \<noteq> ''..'' \<or> (initial_slashes = 0 \<and> new_comps = [])
              \<or> (new_comps \<noteq> [] \<and> last new_comps = ''..'')
      then normpath_comps initial_slashes (new_comps @ [component]) comps
      else if new_comps \<noteq> [] then normpath_comps initial_slashes (butlast new_comps) comps
      else normpath_comps initial_slashes new_comps comps)"

definition normpath :: "string \<Rightarrow> string" where
  "normpath path =
     (if path = [] then ''.''
      else
        let initial_slashes =
              (if prefix ''/'' path
               then (if prefix ''//'' path \<and> \<not> prefix ''///'' path then 2 else 1)
               else 0 :: nat);
            comps = normpath_comps initial_slashes [] (split_char (CHR ''/'') path);
            path' = replicate initial_slashes (CHR ''/'') @ join_char (CHR ''/'') comps
        in if path' = [] then ''.'' else path')"

text \<open>\<open>posixpath.dirname\<close>.\<close>

definition os_path_dirname :: "string \<Rightarrow> string" where
  "os_path_dirname p =
     (let i = nat (rfind p (CHR ''/'') + 1);
          head = take i p
      in if head \<noteq> [] \<and> head \<noteq> replicate (length head) (CHR ''/'')
         then rstrip_chars ''/'' head else head)"

section \<open>The environment of the handler\<close>

text \<open>
  The file system as the handler sees it: a table from absolute paths (without a trailing
  slash) to entries. A regular file has its bytes, its modification time in whole seconds
  and a flag telling whether \<open>open(path, 'rb')\<close> succeeds; a directory has the names that
  \<open>os.listdir\<close> returns, or \<open>None\<close> when listing it raises \<open>OSError\<close>.
\<close>

datatype fs_entry =
    RegularFile (file_bytes: string) (st_mtime: int) (readable: bool)
  | Directory (names: "string list option")

type_synonym filesystem = "(string \<times> fs_entry) list"

text \<open>\<open>os.stat\<close> as \<open>os.path.isdir\<close> and \<open>os.path.isfile\<close> use it: they answer \<open>False\<close> when it
  raises \<open>OSError\<close> or, for a path with a NUL character, \<open>ValueError\<close>. A path with a
  trailing slash names a directory or nothing.\<close>

definition os_stat :: "filesystem \<Rightarrow> string \<Rightarrow> fs_entry option" where
  "os_stat fs p =
     (if p = [] \<or> CHR 0x00 \<in> set p then None
      else if suffix ''/'' p
      then (let q = rstrip_chars ''/'' p
            in case map_of fs (if q = [] then ''/'' else q) of
                 Some (Directory l) \<Rightarrow> Some (Directory l)
               | _ \<Rightarrow> None)
      else map_of fs p)"

definition os_path_isdir :: "filesystem \<Rightarrow> string \<Rightarrow> bool" where
  "os_path_isdir fs p = (case os_stat fs p of Some (Directory l) \<Rightarrow> True | _ \<Rightarrow> False)"

definition os_path_isfile :: "filesystem \<Rightarrow> string \<Rightarrow> bool" where
  "os_path_isfile fs p = (case os_stat fs p of Some (RegularFile b t r) \<Rightarrow> True | _ \<Rightarrow> False)"

text \<open>\<open>open(path, 'rb')\<close> followed by \<open>os.fstat\<close>: the bytes and the modification time of
  the file, or the exception raised: \<open>ValueError\<close> for a path with a NUL character,
  \<open>OSError\<close> when there is no such file or it may not be read.\<close>

datatype opened = Opened string int | Raised_OSError | Raised_ValueError

definition open_rb :: "filesystem \<Rightarrow> string \<Rightarrow> opened" where
  "open_rb fs p =
     (if CHR 0x00 \<in> set p then Raised_ValueError
      else case os_stat fs p of
             Some (RegularFile b t r) \<Rightarrow> if r then Opened b t else Raised_OSError
           | _ \<Rightarrow> Raised_OSError)"

definition os_listdir :: "filesystem \<Rightarrow> string \<Rightarrow> string list option" where
  "os_listdir fs p = (case os_stat fs p of Some (Directory l) \<Rightarrow> l | _ \<Rightarrow> None)"

text \<open>The exceptions that reach \<open>main\<close>.\<close>

datatype exn = KeyboardInterrupt | OSError string | SystemExit nat | RuntimeError string

text \<open>
  What the program takes from the Python library and the platform without deciding it
  itself: the server's version string, the clock (\<open>date_time_string(timestamp)\<close>, \<open>None\<close>
  for the current time), \<open>urllib.parse\<close> (\<open>urlsplit\<close> is \<open>None\<close> when it raises \<open>ValueError\<close>),
  \<open>mimetypes.guess_type\<close>, \<open>email.utils.parsedate_to_datetime\<close> (the seconds since the epoch
  of the date's fields read as UTC, and the offset of its time zone if it has one;
  \<open>None\<close> when the date is ill-formed), \<open>repr\<close> on strings, the file system encoding, the
  HTML page that \<open>list_directory\<close> builds from the request path, the directory and its
  names and encodes (\<open>None\<close> when the encoding raises \<open>UnicodeEncodeError\<close>), the message of
  the \<open>OSError\<close> of a bind to an address in use, the lines that the interpreter prints for
  the stack frames of an uncaught exception, and, for an exception in the handler of a
  connection, the text of the client's address and the lines that \<open>traceback.print_exc\<close>
  prints.
\<close>

record env =
  version_string :: string
  date_time_string :: "int option \<Rightarrow> string"
  unquote :: "string \<Rightarrow> string"
  urlsplit :: "string \<Rightarrow> (string \<times> string \<times> string \<times> string \<times> string) option"
  urlunsplit :: "string \<times> string \<times> string \<times> string \<times> string \<Rightarrow> string"
  mimetypes_guess_type :: "string \<Rightarrow> string option"
  parsedate_to_datetime :: "string \<Rightarrow> (int \<times> int option) option"
  repr :: "string \<Rightarrow> string"
  getfilesystemencoding :: string
  directory_page :: "filesystem \<Rightarrow> string \<Rightarrow> string \<Rightarrow> string list \<Rightarrow> string option"
  address_in_use :: string
  stack_frames :: "exn \<Rightarrow> string list"
  client_text :: "string \<Rightarrow> string"
  print_exc :: "string \<Rightarrow> string list"

section \<open>The request handler\<close>

text \<open>
  The state of the process that handlers can reach: what has been written to \<open>sys.stdout\<close>
  and \<open>sys.stderr\<close> (one entry per \<open>write\<close>), the class attribute \<open>extensions_map\<close>, the
  file system and the working directory.
\<close>

record process =
  stdout :: "string list"
  stderr :: "string list"
  extensions_map :: "(string \<times> string) list"
  filesystem :: filesystem
  cwd :: string

text \<open>
  A handler instance works on the process state and on its own attributes;
  \<open>headers_buffer = None\<close> means that the instance has no \<open>_headers_buffer\<close> attribute yet, and
  \<open>wfile\<close> lists what has been written to the client's socket.
\<close>

record handler = process +
  directory :: string
  client_address :: string
  raw_requestline :: string
  requestline :: string
  command :: "string option"
  path :: string
  request_version :: string
  close_connection :: bool
  headers :: "(string \<times> string) list"
  headers_buffer :: "string list option"
  wfile :: "string list"

text \<open>\<open>CustomHandler.extensions_map\<close> (src/server.py, lines 15 to 29).\<close>

definition CustomHandler_extensions_map :: "(string \<times> string) list" where
  "CustomHandler_extensions_map =
     [(''.html'', ''text/html''),
      (''.css'', ''text/css''),
      (''.js'', ''application/javascript''),
      (''.json'', ''application/json''),
      (''.png'', ''image/png''),
      (''.jpg'', ''image/jpeg''),
      (''.jpeg'', ''image/jpeg''),
      (''.gif'', ''image/gif''),
      (''.svg'', ''image/svg+xml''),
      (''.ico'', ''image/x-icon''),
      (''.mp3'', ''audio/mpeg''),
      (''.wav'', ''audio/wav''),
      ('''', ''application/octet-stream'')]"

subsection \<open>Class constants of \<open>BaseHTTPRequestHandler\<close>\<close>

definition protocol_version :: string where
  "protocol_version = ''HTTP/1.0''"

definition default_request_version :: string where
  "default_request_version = ''HTTP/0.9''"

definition error_content_type :: string where
  "error_content_type = ''text/html;charset=utf-8''"

text \<open>The members of \<open>HTTPStatus\<close> that this handler sends, with their entries in
  \<open>responses\<close>.\<close>

datatype HTTPStatus =
    CONTINUE | OK | MOVED_PERMANENTLY | NOT_MODIFIED | BAD_REQUEST | NOT_FOUND
  | REQUEST_URI_TOO_LONG | REQUEST_HEADER_FIELDS_TOO_LARGE | NOT_IMPLEMENTED
  | HTTP_VERSION_NOT_SUPPORTED

fun status_value :: "HTTPStatus \<Rightarrow> nat" where
  "status_value CONTINUE = 100"
| "status_value OK = 200"
| "status_value MOVED_PERMANENTLY = 301"
| "status_value NOT_MODIFIED = 304"
| "status_value BAD_REQUEST = 400"
| "status_value NOT_FOUND = 404"
| "status_value REQUEST_URI_TOO_LONG = 414"
| "status_value REQUEST_HEADER_FIELDS_TOO_LARGE = 431"
| "status_value NOT_IMPLEMENTED = 501"
| "status_value HTTP_VERSION_NOT_SUPPORTED = 505"

fun phrase :: "HTTPStatus \<Rightarrow> string" where
  "phrase CONTINUE = ''Continue''"
| "phrase OK = ''OK''"
| "phrase MOVED_PERMANENTLY = ''Moved Permanently''"
| "phrase NOT_MODIFIED = ''Not Modified''"
| "phrase BAD_REQUEST = ''Bad Request''"
| "phrase NOT_FOUND = ''Not Found''"
| "phrase REQUEST_URI_TOO_LONG = ''Request-URI Too Long''"
| "phrase REQUEST_HEADER_FIELDS_TOO_LARGE = ''Request Header Fields Too Large''"
| "phrase NOT_IMPLEMENTED = ''Not Implemented''"
| "phrase HTTP_VERSION_NOT_SUPPORTED = ''HTTP Version Not Supported''"

fun description :: "HTTPStatus \<Rightarrow> string" where
  "description CONTINUE = ''Request received, please continue''"
| "description OK = ''Request fulfilled, document follows''"
| "description MOVED_PERMANENTLY = ''Object moved permanently -- see URI list''"
| "description NOT_MODIFIED = ''Document has not changed since given time''"
| "description BAD_REQUEST = ''Bad request syntax or unsupported method''"
| "description NOT_FOUND = ''Nothing matches the given URI''"
| "description REQUEST_URI_TOO_LONG = ''URI is too long''"
| "description REQUEST_HEADER_FIELDS_TOO_LARGE =
     ''The server is unwilling to process the request because its header fields are too large''"
| "description NOT_IMPLEMENTED = ''Server does not support this operation''"
| "description HTTP_VERSION_NOT_SUPPORTED = ''Cannot fulfill request''"

text \<open>\<open>error_message_format % {'code': code, 'message': ..., 'explain': ...}\<close> with the
  default template; \<open>%(code)d\<close> and \<open>%(code)s\<close> both print the number.\<close>

definition error_message_format :: "HTTPStatus \<Rightarrow> string \<Rightarrow> string \<Rightarrow> string" where
  \<open>error_message_format code message explain =
     ''<!DOCTYPE HTML>'' @ [LF] @
     ''<html lang="en">'' @ [LF] @
     ''    <head>'' @ [LF] @
     ''        <meta charset="utf-8">'' @ [LF] @
     ''        <title>Error response</title>'' @ [LF] @
     ''    </head>'' @ [LF] @
     ''    <body>'' @ [LF] @
     ''        <h1>Error response</h1>'' @ [LF] @
     ''        <p>Error code: '' @ str_nat (status_value code) @ ''</p>'' @ [LF] @
     ''        <p>Message: '' @ message @ ''.</p>'' @ [LF] @
     ''        <p>Error code explanation: '' @ str_nat (status_value code) @ '' - '' @ explain
       @ ''.</p>'' @ [LF] @
     ''    </body>'' @ [LF] @
     ''</html>'' @ [LF]\<close>

text \<open>Lookups in the request's headers (\<open>email.message.Message\<close>): names compare without
  case, the first match wins.\<close>

definition headers_get :: "(string \<times> string) list \<Rightarrow> string \<Rightarrow> string \<Rightarrow> string" where
  "headers_get hs name failobj =
     (case find (\<lambda>kv. lower (fst kv) = lower name) hs of
        Some kv \<Rightarrow> snd kv
      | None \<Rightarrow> failobj)"

definition headers_contains :: "(string \<times> string) list \<Rightarrow> string \<Rightarrow> bool" where
  "headers_contains hs name = (lower name \<in> set (map (\<lambda>kv. lower (fst kv)) hs))"

subsection \<open>Logging\<close>

definition address_string :: "handler \<Rightarrow> string" where
  "address_string h = client_address h"

text \<open>\<open>CustomHandler.log_message\<close> (src/server.py, lines 31 to 33):
  \<open>sys.stdout.write("%s - %s\n" % (self.address_string(), format % args))\<close>.\<close>

definition log_message :: "handler \<Rightarrow> string \<Rightarrow> pyval list \<Rightarrow> handler option" where
  "log_message h format args =
     do {
       message \<leftarrow> percent format args;
       line \<leftarrow> percent (''%s - %s'' @ [LF]) [PyStr (address_string h), PyStr message];
       Some (h\<lparr>stdout := stdout h @ [line]\<rparr>)
     }"

definition log_request :: "handler \<Rightarrow> HTTPStatus \<Rightarrow> handler option" where
  \<open>log_request h code =
     log_message h ''"%s" %s %s''
       [PyStr (requestline h), PyStr (str_nat (status_value code)), PyStr ''-'']\<close>

definition log_error :: "handler \<Rightarrow> string \<Rightarrow> pyval list \<Rightarrow> handler option" where
  "log_error h format args = log_message h format args"

subsection \<open>Response headers\<close>

definition send_response_only :: "handler \<Rightarrow> HTTPStatus \<Rightarrow> string option \<Rightarrow> handler" where
  "send_response_only h code message =
     (if request_version h \<noteq> ''HTTP/0.9''
      then let message' = (case message of None \<Rightarrow> phrase code | Some m \<Rightarrow> m);
               buf = (case headers_buffer h of None \<Rightarrow> [] | Some b \<Rightarrow> b)
           in h\<lparr>headers_buffer :=
                  Some (buf @ [protocol_version @ '' '' @ str_nat (status_value code) @ '' ''
                               @ message' @ CRLF])\<rparr>
      else h)"

definition send_header :: "handler \<Rightarrow> string \<Rightarrow> string \<Rightarrow> handler" where
  "send_header h keyword v =
     (let h1 = (if request_version h \<noteq> ''HTTP/0.9''
                then let buf = (case headers_buffer h of None \<Rightarrow> [] | Some b \<Rightarrow> b)
                     in h\<lparr>headers_buffer := Some (buf @ [keyword @ '': '' @ v @ CRLF])\<rparr>
                else h)
      in if lower keyword = ''connection''
         then (if lower v = ''close'' then h1\<lparr>close_connection := True\<rparr>
               else if lower v = ''keep-alive'' then h1\<lparr>close_connection := False\<rparr>
               else h1)
         else h1)"

definition flush_headers :: "handler \<Rightarrow> handler" where
  "flush_headers h =
     (case headers_buffer h of
        None \<Rightarrow> h
      | Some b \<Rightarrow> h\<lparr>wfile := wfile h @ [concat b], headers_buffer := Some []\<rparr>)"

text \<open>\<open>BaseHTTPRequestHandler.end_headers\<close>; \<open>None\<close> is the \<open>AttributeError\<close> of appending to a
  buffer that does not exist.\<close>

definition BaseHTTPRequestHandler_end_headers :: "handler \<Rightarrow> handler option" where
  "BaseHTTPRequestHandler_end_headers h =
     (if request_version h \<noteq> ''HTTP/0.9''
      then (case headers_buffer h of
              None \<Rightarrow> None
            | Some b \<Rightarrow> Some (flush_headers (h\<lparr>headers_buffer := Some (b @ [CRLF])\<rparr>)))
      else Some h)"

text \<open>\<open>CustomHandler.end_headers\<close> (src/server.py, lines 35 to 38).\<close>

definition end_headers :: "handler \<Rightarrow> handler option" where
  "end_headers h =
     BaseHTTPRequestHandler_end_headers (send_header h ''Access-Control-Allow-Origin'' ''*'')"

definition send_response :: "env \<Rightarrow> handler \<Rightarrow> HTTPStatus \<Rightarrow> string option \<Rightarrow> handler option" where
  "send_response E h code message =
     do {
       h1 \<leftarrow> log_request h code;
       Some (send_header
               (send_header (send_response_only h1 code message) ''Server'' (version_string E))
               ''Date'' (date_time_string E None))
     }"

definition send_error ::
  "env \<Rightarrow> handler \<Rightarrow> HTTPStatus \<Rightarrow> string option \<Rightarrow> string option \<Rightarrow> handler option" where
  "send_error E h code message explain =
     (let message' = (case message of None \<Rightarrow> phrase code | Some m \<Rightarrow> m);
          explain' = (case explain of None \<Rightarrow> description code | Some e \<Rightarrow> e)
      in do {
           h1 \<leftarrow> log_error h ''code %d, message %s'' [PyInt (status_value code), PyStr message'];
           h2 \<leftarrow> send_response E h1 code (Some message');
           let h3 = send_header h2 ''Connection'' ''close'';
               body = (if status_value code \<ge> 200 \<and> status_value code \<notin> {204, 205, 304}
                       then Some (encode_utf8 (error_message_format code
                                    (html_escape message') (html_escape explain')))
                       else None);
               h4 = (case body of
                       None \<Rightarrow> h3
                     | Some b \<Rightarrow> send_header (send_header h3 ''Content-Type'' error_content_type)
                                  ''Content-Length'' (str_nat (length b)))
           in do {
                h5 \<leftarrow> end_headers h4;
                Some (case body of
                        None \<Rightarrow> h5
                      | Some b \<Rightarrow> if command h5 \<noteq> Some ''HEAD'' \<and> b \<noteq> []
                                  then h5\<lparr>wfile := wfile h5 @ [b]\<rparr> else h5)
              }
         })"

subsection \<open>Serving files: \<open>SimpleHTTPRequestHandler\<close>\<close>

text \<open>\<open>translate_path\<close>: the query and the fragment are dropped, the path is unquoted and
  normalised, and its words are joined to the served directory one by one; the words
  \<open>.\<close> and \<open>..\<close> and words with a directory part are skipped.\<close>

fun translate_words :: "string \<Rightarrow> string list \<Rightarrow> string" where
  "translate_words p [] = p"
| "translate_words p (word # ws) =
     (if os_path_dirname word \<noteq> [] \<or> word = ''.'' \<or> word = ''..''
      then translate_words p ws
      else translate_words (os_path_join p word) ws)"

definition translate_path :: "env \<Rightarrow> handler \<Rightarrow> string \<Rightarrow> string" where
  "translate_path E h p =
     (let p1 = takeWhile (\<lambda>c. c \<noteq> CHR ''?'') p;
          p2 = takeWhile (\<lambda>c. c \<noteq> CHR ''#'') p1;
          trailing_slash = suffix ''/'' (rstrip p2);
          p3 = normpath (unquote E p2);
          ws = filter (\<lambda>w. w \<noteq> []) (split_char (CHR ''/'') p3);
          p4 = translate_words (directory h) ws
      in if trailing_slash then p4 @ ''/'' else p4)"

text \<open>\<open>guess_type\<close>: the extension as it is, then in lower case, then the platform's
  \<open>mimetypes\<close> table, then \<open>application/octet-stream\<close>.\<close>

definition guess_type :: "env \<Rightarrow> handler \<Rightarrow> string \<Rightarrow> string" where
  "guess_type E h p =
     (let ext = snd (splitext p)
      in case map_of (extensions_map h) ext of
           Some t \<Rightarrow> t
         | None \<Rightarrow>
             (case map_of (extensions_map h) (lower ext) of
                Some t \<Rightarrow> t
              | None \<Rightarrow>
                  (case mimetypes_guess_type E p of
                     Some guess \<Rightarrow> if guess \<noteq> [] then guess else ''application/octet-stream''
                   | None \<Rightarrow> ''application/octet-stream'')))"

text \<open>\<open>shutil.copyfileobj\<close>: the source is read and written in blocks of \<open>COPY_BUFSIZE\<close>
  bytes until a read returns nothing.\<close>

definition COPY_BUFSIZE :: nat where
  "COPY_BUFSIZE = 64 * 1024"

function copyfileobj :: "string \<Rightarrow> string list" where
  "copyfileobj src =
     (let buf = take COPY_BUFSIZE src
      in if buf = [] then [] else buf # copyfileobj (drop COPY_BUFSIZE src))"
  by pat_completeness auto
termination
  by (relation "measure length") (auto simp: COPY_BUFSIZE_def)

declare copyfileobj.simps [simp del]

definition copyfile :: "handler \<Rightarrow> string \<Rightarrow> handler" where
  "copyfile h source = h\<lparr>wfile := wfile h @ copyfileobj source\<rparr>"

text \<open>The test of \<open>send_head\<close> for a conditional request: an \<open>If-Modified-Since\<close> header, no
  \<open>If-None-Match\<close> header, a well-formed date in UTC (a date without a zone counts as
  UTC), and a file not modified after it.\<close>

definition not_modified_since :: "env \<Rightarrow> handler \<Rightarrow> int \<Rightarrow> bool" where
  "not_modified_since E h mtime =
     (if headers_contains (headers h) ''If-Modified-Since''
         \<and> \<not> headers_contains (headers h) ''If-None-Match''
      then (case parsedate_to_datetime E (headers_get (headers h) ''If-Modified-Since'' []) of
              None \<Rightarrow> False
            | Some (ims, tz) \<Rightarrow>
                (case tz of None \<Rightarrow> mtime \<le> ims
                 | Some off \<Rightarrow> if off = 0 then mtime \<le> ims else False))
      else False)"

definition list_directory :: "env \<Rightarrow> handler \<Rightarrow> string \<Rightarrow> (handler \<times> string option) option" where
  "list_directory E h p =
     (case os_listdir (filesystem h) p of
        None \<Rightarrow>
          map_option (\<lambda>h'. (h', None))
            (send_error E h NOT_FOUND (Some ''No permission to list directory'') None)
      | Some list \<Rightarrow>
          (case directory_page E (filesystem h) (path h) p list of
             None \<Rightarrow> None
           | Some encoded \<Rightarrow>
               do {
                 h1 \<leftarrow> send_response E h OK None;
                 h2 \<leftarrow> end_headers
                         (send_header
                            (send_header h1 ''Content-type''
                               (''text/html; charset='' @ getfilesystemencoding E))
                            ''Content-Length'' (str_nat (length encoded)));
                 Some (h2, Some encoded)
               }))"

text \<open>The part of \<open>send_head\<close> after the directory has been dealt with: \<open>p\<close> is the path of the
  file to send. Only \<open>OSError\<close> is caught around \<open>open\<close>: the \<open>ValueError\<close> leaves the
  handler, which is the result \<open>None\<close>.\<close>

definition send_head_file :: "env \<Rightarrow> handler \<Rightarrow> string \<Rightarrow> (handler \<times> string option) option" where
  "send_head_file E h p =
     (let ctype = guess_type E h p
      in if suffix ''/'' p
         then map_option (\<lambda>h'. (h', None)) (send_error E h NOT_FOUND (Some ''File not found'') None)
         else (case open_rb (filesystem h) p of
                 Raised_ValueError \<Rightarrow> None
               | Raised_OSError \<Rightarrow>
                   map_option (\<lambda>h'. (h', None))
                     (send_error E h NOT_FOUND (Some ''File not found'') None)
               | Opened f mtime \<Rightarrow>
                   if not_modified_since E h mtime
                   then do {
                          h1 \<leftarrow> send_response E h NOT_MODIFIED None;
                          h2 \<leftarrow> end_headers h1;
                          Some (h2, None)
                        }
                   else do {
                          h1 \<leftarrow> send_response E h OK None;
                          h2 \<leftarrow> end_headers
                                  (send_header
                                     (send_header
                                        (send_header h1 ''Content-type'' ctype)
                                        ''Content-Length'' (str_nat (length f)))
                                     ''Last-Modified'' (date_time_string E (Some mtime)));
                          Some (h2, Some f)
                        }))"

definition send_head :: "env \<Rightarrow> handler \<Rightarrow> (handler \<times> string option) option" where
  "send_head E h =
     (let p = translate_path E h (path h)
      in if os_path_isdir (filesystem h) p
         then (case urlsplit E (path h) of
                 None \<Rightarrow> None
               | Some (scheme, netloc, ppath, query, fragment) \<Rightarrow>
                   if \<not> suffix ''/'' ppath
                   then do {
                          h1 \<leftarrow> send_response E h MOVED_PERMANENTLY None;
                          h2 \<leftarrow> end_headers
                                  (send_header
                                     (send_header h1 ''Location''
                                        (urlunsplit E (scheme, netloc, ppath @ ''/'', query, fragment)))
                                     ''Content-Length'' ''0'');
                          Some (h2, None)
                        }
                   else if os_path_isfile (filesystem h) (os_path_join p ''index.html'')
                   then send_head_file E h (os_path_join p ''index.html'')
                   else if os_path_isfile (filesystem h) (os_path_join p ''index.htm'')
                   then send_head_file E h (os_path_join p ''index.htm'')
                   else list_directory E h p)
         else send_head_file E h p)"

definition do_GET :: "env \<Rightarrow> handler \<Rightarrow> handler option" where
  "do_GET E h =
     do {
       (h1, f) \<leftarrow> send_head E h;
       Some (case f of None \<Rightarrow> h1 | Some source \<Rightarrow> copyfile h1 source)
     }"

definition do_HEAD :: "env \<Rightarrow> handler \<Rightarrow> handler option" where
  "do_HEAD E h =
     do {
       (h1, f) \<leftarrow> send_head E h;
       Some h1
     }"

subsection \<open>Parsing and dispatching a request\<close>

text \<open>The version check of \<open>parse_request\<close>; \<open>None\<close> is the \<open>ValueError\<close>.\<close>

definition parse_version :: "string \<Rightarrow> (nat \<times> nat) option" where
  "parse_version version =
     (if \<not> prefix ''HTTP/'' version then None
      else let base_version_number = drop 1 (dropWhile (\<lambda>c. c \<noteq> CHR ''/'') version);
               version_number = split_char (CHR ''.'') base_version_number
           in if length version_number \<noteq> 2 then None
              else if list_ex (\<lambda>c. c = [] \<or> \<not> list_all isdigit_char c) version_number then None
              else if list_ex (\<lambda>c. length c > 10) version_number then None
              else Some (int_of_digits 0 (version_number ! 0), int_of_digits 0 (version_number ! 1)))"

text \<open>Comparison of version tuples, as Python compares tuples.\<close>

definition version_ge :: "nat \<times> nat \<Rightarrow> nat \<times> nat \<Rightarrow> bool" where
  "version_ge v w = (fst v > fst w \<or> (fst v = fst w \<and> snd v \<ge> snd w))"

text \<open>What \<open>http.client.parse_headers\<close> makes of the lines after the request line: the
  headers, or one of its two exceptions with its message.\<close>

datatype header_parse =
    Parsed "(string \<times> string) list"
  | LineTooLong string
  | HTTPException string

text \<open>A request as it arrives: the bytes waiting on the connection, of which \<open>readline\<close> takes
  the first line, and the outcome of parsing the header lines.\<close>

record request =
  rfile :: string
  header_lines :: header_parse

definition readline :: "nat \<Rightarrow> string \<Rightarrow> string" where
  "readline limit s =
     take limit (takeWhile (\<lambda>c. c \<noteq> LF) s @ take 1 (dropWhile (\<lambda>c. c \<noteq> LF) s))"

definition handle_expect_100 :: "handler \<Rightarrow> (handler \<times> bool) option" where
  "handle_expect_100 h =
     map_option (\<lambda>h'. (h', True)) (end_headers (send_response_only h CONTINUE None))"

text \<open>The last part of \<open>parse_request\<close>: the headers and the \<open>Connection\<close> and \<open>Expect\<close>
  directives.\<close>

definition parse_request_headers ::
  "env \<Rightarrow> handler \<Rightarrow> header_parse \<Rightarrow> (handler \<times> bool) option" where
  "parse_request_headers E h hp =
     (case hp of
        LineTooLong err \<Rightarrow>
          map_option (\<lambda>h'. (h', False))
            (send_error E h REQUEST_HEADER_FIELDS_TOO_LARGE (Some ''Line too long'') (Some err))
      | HTTPException err \<Rightarrow>
          map_option (\<lambda>h'. (h', False))
            (send_error E h REQUEST_HEADER_FIELDS_TOO_LARGE (Some ''Too many headers'') (Some err))
      | Parsed hs \<Rightarrow>
          (let h1 = h\<lparr>headers := hs\<rparr>;
               conntype = headers_get hs ''Connection'' [];
               h2 = (if lower conntype = ''close'' then h1\<lparr>close_connection := True\<rparr>
                     else if lower conntype = ''keep-alive'' \<and> protocol_version \<ge> ''HTTP/1.1''
                     then h1\<lparr>close_connection := False\<rparr>
                     else h1);
               expect = headers_get hs ''Expect'' []
           in if lower expect = ''100-continue'' \<and> protocol_version \<ge> ''HTTP/1.1''
                 \<and> request_version h2 \<ge> ''HTTP/1.1''
              then handle_expect_100 h2
              else Some (h2, True)))"

text \<open>The middle part of \<open>parse_request\<close>: the number of words, the command and the path.\<close>

definition parse_request_words ::
  "env \<Rightarrow> handler \<Rightarrow> string list \<Rightarrow> header_parse \<Rightarrow> (handler \<times> bool) option" where
  "parse_request_words E h ws hp =
     (if \<not> (2 \<le> length ws \<and> length ws \<le> 3)
      then map_option (\<lambda>h'. (h', False))
             (send_error E h BAD_REQUEST
                (Some (''Bad request syntax ('' @ repr E (requestline h) @ '')'')) None)
      else
        let cmd = ws ! 0;
            p = ws ! 1;
            h1 = (if length ws = 2 then h\<lparr>close_connection := True\<rparr> else h)
        in if length ws = 2 \<and> cmd \<noteq> ''GET''
           then map_option (\<lambda>h'. (h', False))
                  (send_error E h1 BAD_REQUEST
                     (Some (''Bad HTTP/0.9 request type ('' @ repr E cmd @ '')'')) None)
           else
             let h2 = h1\<lparr>command := Some cmd, path := p\<rparr>;
                 h3 = (if prefix ''//'' (path h2)
                       then h2\<lparr>path := ''/'' @ lstrip_chars ''/'' (path h2)\<rparr> else h2)
             in parse_request_headers E h3 hp)"

definition parse_request :: "env \<Rightarrow> handler \<Rightarrow> header_parse \<Rightarrow> (handler \<times> bool) option" where
  "parse_request E h hp =
     (let h1 = h\<lparr>command := None, request_version := default_request_version,
                  close_connection := True\<rparr>;
          h2 = h1\<lparr>requestline := rstrip_chars [CR, LF] (raw_requestline h1)\<rparr>;
          ws = split_ws (requestline h2)
      in if length ws = 0 then Some (h2, False)
         else if length ws \<ge> 3
         then (let version = last ws
               in case parse_version version of
                    None \<Rightarrow>
                      map_option (\<lambda>h'. (h', False))
                        (send_error E h2 BAD_REQUEST
                           (Some (''Bad request version ('' @ repr E version @ '')'')) None)
                  | Some version_number \<Rightarrow>
                      (let h3 = (if version_ge version_number (1, 1)
                                    \<and> protocol_version \<ge> ''HTTP/1.1''
                                 then h2\<lparr>close_connection := False\<rparr> else h2)
                       in if version_ge version_number (2, 0)
                          then map_option (\<lambda>h'. (h', False))
                                 (send_error E h3 HTTP_VERSION_NOT_SUPPORTED
                                    (Some (''Invalid HTTP version (''
                                           @ drop 1 (dropWhile (\<lambda>c. c \<noteq> CHR ''/'') version)
                                           @ '')'')) None)
                          else parse_request_words E (h3\<lparr>request_version := version\<rparr>) ws hp))
         else parse_request_words E h2 ws hp)"

text \<open>\<open>handle_one_request\<close>. The class has the methods \<open>do_GET\<close> and \<open>do_HEAD\<close> and no other
  \<open>do_\<close> method. The last \<open>None\<close> is the \<open>TypeError\<close> of \<open>'do_' + None\<close>.\<close>

definition handle_one_request :: "env \<Rightarrow> handler \<Rightarrow> request \<Rightarrow> handler option" where
  "handle_one_request E h req =
     (let h1 = h\<lparr>raw_requestline := readline 65537 (rfile req)\<rparr>
      in if length (raw_requestline h1) > 65536
         then send_error E (h1\<lparr>requestline := [], request_version := [], command := Some []\<rparr>)
                REQUEST_URI_TOO_LONG None None
         else if raw_requestline h1 = [] then Some (h1\<lparr>close_connection := True\<rparr>)
         else do {
                (h2, ok) \<leftarrow> parse_request E h1 (header_lines req);
                if \<not> ok then Some h2
                else (case command h2 of
                        None \<Rightarrow> None
                      | Some cmd \<Rightarrow>
                          if cmd = ''GET'' then do_GET E h2
                          else if cmd = ''HEAD'' then do_HEAD E h2
                          else send_error E h2 NOT_IMPLEMENTED
                                 (Some (''Unsupported method ('' @ repr E cmd @ '')'')) None)
              })"

text \<open>\<open>handle\<close>: one request, and further ones while the connection is kept open. When the
  requests have run out, \<open>readline\<close> returns nothing and the connection is closed.\<close>

definition end_of_file :: request where
  "end_of_file = \<lparr>rfile = [], header_lines = Parsed []\<rparr>"

fun handle_requests :: "env \<Rightarrow> handler \<Rightarrow> request list \<Rightarrow> handler option" where
  "handle_requests E h [] = handle_one_request E h end_of_file"
| "handle_requests E h (req # reqs) =
     do {
       h1 \<leftarrow> handle_one_request E h req;
       if close_connection h1 then Some h1 else handle_requests E h1 reqs
     }"

definition handle :: "env \<Rightarrow> handler \<Rightarrow> request list \<Rightarrow> handler option" where
  "handle E h reqs = handle_requests E (h\<lparr>close_connection := True\<rparr>) reqs"

section \<open>The server and \<open>main\<close>\<close>

definition PORT :: nat where
  "PORT = 9000"

datatype socket_state = NoSocket | Listening | Closed

text \<open>
  The process together with the listening socket of the \<open>TCPServer\<close> and, for every
  connection served, the client's address and what was written to it.
\<close>

record world = process +
  listening_socket :: socket_state
  delivered :: "(string \<times> string list) list"

text \<open>
  What happens while \<open>serve_forever\<close> runs, one event for each turn of its loop: the
  selector times out, a client connects and sends its requests, \<open>accept\<close> fails, or an
  exception is raised in the loop (\<open>KeyboardInterrupt\<close> when the process is interrupted).
\<close>

datatype event =
    Timeout
  | Connection string "request list"
  | AcceptError
  | Signal exn

text \<open>The handler instance that \<open>finish_request\<close> creates for a connection; its \<open>directory\<close> is
  \<open>os.getcwd()\<close>.\<close>

definition new_handler :: "world \<Rightarrow> string \<Rightarrow> handler" where
  "new_handler w addr =
     \<lparr>stdout = stdout w, stderr = stderr w, extensions_map = extensions_map w,
      filesystem = filesystem w, cwd = cwd w,
      directory = cwd w, client_address = addr, raw_requestline = [], requestline = [],
      command = None, path = [], request_version = [], close_connection = True,
      headers = [], headers_buffer = None, wfile = []\<rparr>"

text \<open>\<open>finish_request\<close>: the handler runs in its constructor. \<open>None\<close> is an exception that
  leaves the handler.\<close>

definition finish_request :: "env \<Rightarrow> world \<Rightarrow> string \<Rightarrow> request list \<Rightarrow> world option" where
  "finish_request E w addr reqs =
     map_option
       (\<lambda>h. w\<lparr>stdout := stdout h, stderr := stderr h, extensions_map := extensions_map h,
               filesystem := filesystem h, cwd := cwd h,
               delivered := delivered w @ [(addr, wfile h)]\<rparr>)
       (handle E (new_handler w addr) reqs)"

text \<open>\<open>handle_error\<close> reports on \<open>sys.stderr\<close>: a rule, the client's address, the traceback
  and a rule.\<close>

definition handle_error :: "env \<Rightarrow> world \<Rightarrow> string \<Rightarrow> world" where
  "handle_error E w addr =
     w\<lparr>stderr := stderr w @
          [replicate 40 (CHR ''-''), [LF],
           ''Exception occurred during processing of request from'', '' '',
           client_text E addr, [LF]]
          @ print_exc E addr
          @ [replicate 40 (CHR ''-''), [LF]]\<rparr>"

definition handle_request_noblock :: "env \<Rightarrow> world \<Rightarrow> string \<Rightarrow> request list \<Rightarrow> world" where
  "handle_request_noblock E w addr reqs =
     (case finish_request E w addr reqs of
        Some w' \<Rightarrow> w'
      | None \<Rightarrow> handle_error E w addr)"

text \<open>
  \<open>serve_forever\<close> over the events. It never returns normally (nothing calls
  \<open>shutdown\<close>): the result is the exception that leaves the loop, or \<open>None\<close> when the events
  end with the loop still waiting.
\<close>

fun serve_forever :: "env \<Rightarrow> world \<Rightarrow> event list \<Rightarrow> exn option \<times> world" where
  "serve_forever E w [] = (None, w)"
| "serve_forever E w (Timeout # evs) = serve_forever E w evs"
| "serve_forever E w (AcceptError # evs) = serve_forever E w evs"
| "serve_forever E w (Connection addr reqs # evs) =
     serve_forever E (handle_request_noblock E w addr reqs) evs"
| "serve_forever E w (Signal e # evs) = (Some e, w)"

text \<open>\<open>print(x)\<close> writes \<open>x\<close> and the line end to \<open>sys.stdout\<close>.\<close>

definition print :: "world \<Rightarrow> string \<Rightarrow> world" where
  "print w x = w\<lparr>stdout := stdout w @ [x, [LF]]\<rparr>"

definition server_close :: "world \<Rightarrow> world" where
  "server_close w = w\<lparr>listening_socket := Closed\<rparr>"

text \<open>How \<open>main\<close> ends: it returns, an exception leaves it, or the events end while it is
  still serving.\<close>

datatype main_result = Returned | Propagated exn | Serving

definition banner :: "world \<Rightarrow> world" where
  "banner w =
     print (print (print (print (print w
       ([LF] @ ''-----------------------------------------''))
       (''Server running at http://localhost:'' @ str_nat PORT @ ''/''))
       ''-----------------------------------------'')
       ''Open your browser to view the game!'')
       (''Press Ctrl+C to stop the server'' @ [LF])"

text \<open>
  \<open>main\<close> (src/server.py, lines 41 to 55). \<open>ports_in_use\<close> are the TCP ports that other
  processes hold: the constructor of \<open>TCPServer\<close> binds the socket, and when the bind raises
  \<open>OSError\<close> it closes the socket and raises again, before the \<open>with\<close> block is entered.
  Leaving the \<open>with\<close> block, normally or by an exception, calls \<open>server_close\<close>.
\<close>

definition main :: "env \<Rightarrow> nat list \<Rightarrow> world \<Rightarrow> event list \<Rightarrow> main_result \<times> world" where
  "main E ports_in_use w evs =
     (if PORT \<in> set ports_in_use
      then (Propagated (OSError (address_in_use E)), server_close w)
      else
        (case serve_forever E (banner (w\<lparr>listening_socket := Listening\<rparr>)) evs of
           (None, w1) \<Rightarrow> (Serving, w1)
         | (Some KeyboardInterrupt, w1) \<Rightarrow>
             (Returned, server_close (print w1 ([LF] @ ''Server stopped.'')))
         | (Some e, w1) \<Rightarrow> (Propagated e, server_close w1)))"

text \<open>
  The script: \<open>main()\<close> is called at top level. When it returns the process exits with
  status 0. An exception that leaves it ends the process: the interpreter writes a traceback
  to \<open>sys.stderr\<close> (a heading, the stack frames, and a last line that names the exception)
  and exits with status 1. \<open>SystemExit\<close> exits silently with the low eight bits of its
  code, an uncaught \<open>KeyboardInterrupt\<close> with status 130 after its traceback.
\<close>

fun exn_line :: "exn \<Rightarrow> string" where
  "exn_line KeyboardInterrupt = ''KeyboardInterrupt''"
| "exn_line (OSError m) = ''OSError: '' @ m"
| "exn_line (SystemExit n) = ''SystemExit: '' @ str_nat n"
| "exn_line (RuntimeError m) = ''RuntimeError: '' @ m"

definition traceback :: "env \<Rightarrow> exn \<Rightarrow> string list" where
  "traceback E e =
     [''Traceback (most recent call last):'' @ [LF]] @ stack_frames E e @ [exn_line e @ [LF]]"

definition uncaught :: "env \<Rightarrow> world \<Rightarrow> exn \<Rightarrow> nat \<times> world" where
  "uncaught E w e =
     (case e of
        SystemExit n \<Rightarrow> (n mod 256, w)
      | KeyboardInterrupt \<Rightarrow> (130, w\<lparr>stderr := stderr w @ traceback E e\<rparr>)
      | _ \<Rightarrow> (1, w\<lparr>stderr := stderr w @ traceback E e\<rparr>))"

text \<open>The exit status of the process, or \<open>None\<close> while it is still serving.\<close>

definition script :: "env \<Rightarrow> nat list \<Rightarrow> world \<Rightarrow> event list \<Rightarrow> nat option \<times> world" where
  "script E ports_in_use w evs =
     (case main E ports_in_use w evs of
        (Returned, w1) \<Rightarrow> (Some 0, w1)
      | (Propagated e, w1) \<Rightarrow> (case uncaught E w1 e of (status, w2) \<Rightarrow> (Some status, w2))
      | (Serving, w1) \<Rightarrow> (None, w1))"

section \<open>Describing responses and log lines\<close>

text \<open>The lines of a response header as the client receives them: each line and the final
  empty line end with CR LF.\<close>

definition header_block :: "string list \<Rightarrow> string" where
  "header_block ls = concat (map (\<lambda>l. l @ CRLF) ls) @ CRLF"

definition buffered :: "handler \<Rightarrow> string list" where
  "buffered h = (case headers_buffer h of None \<Rightarrow> [] | Some b \<Rightarrow> b)"

definition header_line :: "string \<Rightarrow> string \<Rightarrow> string" where
  "header_line keyword v = keyword @ '': '' @ v"

definition status_line :: "HTTPStatus \<Rightarrow> string \<Rightarrow> string" where
  "status_line code message =
     protocol_version @ '' '' @ str_nat (status_value code) @ '' '' @ message"

text \<open>The two kinds of log lines: the one \<open>log_request\<close> writes and the one \<open>send_error\<close>
  writes through \<open>log_error\<close>.\<close>

definition request_log :: "handler \<Rightarrow> HTTPStatus \<Rightarrow> string" where
  \<open>request_log h code =
     client_address h @ '' - "'' @ requestline h @ ''" '' @ str_nat (status_value code)
       @ '' -'' @ [LF]\<close>

definition error_log :: "handler \<Rightarrow> HTTPStatus \<Rightarrow> string \<Rightarrow> string" where
  "error_log h code message =
     client_address h @ '' - code '' @ str_nat (status_value code) @ '', message '' @ message
       @ [LF]"

text \<open>The message and the explanation of \<open>send_error\<close> when an argument is left out, the body
  of its page and the header lines in front of it.\<close>

definition message_of :: "HTTPStatus \<Rightarrow> string option \<Rightarrow> string" where
  "message_of code message = (case message of None \<Rightarrow> phrase code | Some m \<Rightarrow> m)"

definition explain_of :: "HTTPStatus \<Rightarrow> string option \<Rightarrow> string" where
  "explain_of code explain = (case explain of None \<Rightarrow> description code | Some e \<Rightarrow> e)"

definition error_body :: "HTTPStatus \<Rightarrow> string \<Rightarrow> string \<Rightarrow> string" where
  "error_body code message explain =
     encode_utf8 (error_message_format code (html_escape message) (html_escape explain))"

definition error_headers :: "env \<Rightarrow> HTTPStatus \<Rightarrow> string \<Rightarrow> string \<Rightarrow> string list" where
  "error_headers E code message explain =
     [status_line code message,
      header_line ''Server'' (version_string E),
      header_line ''Date'' (date_time_string E None),
      header_line ''Connection'' ''close'',
      header_line ''Content-Type'' error_content_type,
      header_line ''Content-Length'' (str_nat (length (error_body code message explain))),
      header_line ''Access-Control-Allow-Origin'' ''*'']"

section \<open>A served directory for the examples\<close>

text \<open>
  The library functions of the environment at the arguments that the examples use: paths
  without percent escapes, queries or fragments, the platform's \<open>mimetypes\<close> table at the
  extension \<open>.txt\<close>, one clock reading, the date strings of two timestamps, a client port,
  and the tracebacks of the two exceptions of the examples, as Python 3.11 prints them on
  Linux: the \<open>OSError\<close> of the bind and the \<open>ValueError\<close> of \<open>open\<close>.
\<close>

definition bind_frames :: "string list" where
  \<open>bind_frames =
     [''  File "src/server.py", line 59, in <module>'' @ [LF],
      ''    main() '' @ [LF],
      ''    ^^^^^^'' @ [LF],
      ''  File "src/server.py", line 45, in main'' @ [LF],
      ''    with socketserver.TCPServer(("", PORT), handler) as httpd:'' @ [LF],
      ''         ^^^^^^^^^^^^^^^^^^^^^^^^^^^^^^^^^^^^^^^^^^^'' @ [LF],
      ''  File "/opt/python/lib/python3.11/socketserver.py", line 456, in __init__'' @ [LF],
      ''    self.server_bind()'' @ [LF],
      ''  File "/opt/python/lib/python3.11/socketserver.py", line 472, in server_bind'' @ [LF],
      ''    self.socket.bind(self.server_address)'' @ [LF]]\<close>

definition open_traceback :: "string list" where
  \<open>open_traceback =
     [''Traceback (most recent call last):'' @ [LF],
      ''  File "/opt/python/lib/python3.11/socketserver.py", line 317, in _handle_request_noblock''
        @ [LF],
      ''    self.process_request(request, client_address)'' @ [LF],
      ''  File "/opt/python/lib/python3.11/socketserver.py", line 348, in process_request'' @ [LF],
      ''    self.finish_request(request, client_address)'' @ [LF],
      ''  File "/opt/python/lib/python3.11/socketserver.py", line 361, in finish_request'' @ [LF],
      ''    self.RequestHandlerClass(request, client_address, self)'' @ [LF],
      ''  File "/opt/python/lib/python3.11/http/server.py", line 671, in __init__'' @ [LF],
      ''    super().__init__(*args, **kwargs)'' @ [LF],
      ''  File "/opt/python/lib/python3.11/socketserver.py", line 755, in __init__'' @ [LF],
      ''    self.handle()'' @ [LF],
      ''  File "/opt/python/lib/python3.11/http/server.py", line 436, in handle'' @ [LF],
      ''    self.handle_one_request()'' @ [LF],
      ''  File "/opt/python/lib/python3.11/http/server.py", line 424, in handle_one_request'' @ [LF],
      ''    method()'' @ [LF],
      ''  File "/opt/python/lib/python3.11/http/server.py", line 675, in do_GET'' @ [LF],
      ''    f = self.send_head()'' @ [LF],
      ''        ^^^^^^^^^^^^^^^^'' @ [LF],
      ''  File "/opt/python/lib/python3.11/http/server.py", line 730, in send_head'' @ [LF],
      ''    f = open(path, '' @ [CHR 0x27] @ ''rb'' @ [CHR 0x27] @ '')'' @ [LF],
      ''        ^^^^^^^^^^^^^^^^'' @ [LF],
      ''ValueError: embedded null byte'' @ [LF]]\<close>

definition example_env :: env where
  "example_env =
     \<lparr>version_string = ''SimpleHTTP/0.6 Python/3.11.10'',
      date_time_string =
        (\<lambda>t. case t of
               None \<Rightarrow> ''Wed, 04 Nov 2026 08:00:00 GMT''
             | Some s \<Rightarrow> if s = 1700000000 then ''Tue, 14 Nov 2023 22:13:20 GMT''
                         else ''Thu, 01 Jan 1970 00:00:00 GMT''),
      unquote = (\<lambda>s. s),
      urlsplit =
        (\<lambda>p. Some ([], [], takeWhile (\<lambda>c. c \<noteq> CHR ''?'' \<and> c \<noteq> CHR ''#'') p, [], [])),
      urlunsplit = (\<lambda>(scheme, netloc, p, query, fragment). p),
      mimetypes_guess_type =
        (\<lambda>p. if snd (splitext p) = ''.txt'' then Some ''text/plain'' else None),
      parsedate_to_datetime =
        (\<lambda>s. if s = ''Wed, 04 Nov 2026 08:00:00 GMT'' then Some (1793779200, Some 0)
             else None),
      repr = (\<lambda>s. [CHR 0x27] @ s @ [CHR 0x27]),
      getfilesystemencoding = ''utf-8'',
      directory_page = (\<lambda>fs p d ns. Some (concat ns)),
      address_in_use = ''[Errno 98] Address already in use'',
      stack_frames = (\<lambda>e. bind_frames),
      client_text = (\<lambda>addr. ''('' @ [CHR 0x27] @ addr @ [CHR 0x27] @ '', 50000)''),
      print_exc = (\<lambda>addr. open_traceback)\<rparr>"

definition example_fs :: filesystem where
  \<open>example_fs =
     [(''/srv'',
       Directory (Some [''index.html'', ''data.json'', ''LOGO.PNG'', ''notes.txt'', ''.png''])),
      (''/srv/.png'', RegularFile ''PNG'' 1700000000 True),
      (''/srv/index.html'', RegularFile ''<h1>Hi</h1>'' 1700000000 True),
      (''/srv/data.json'', RegularFile ''{"a":1}'' 1700000000 True),
      (''/srv/LOGO.PNG'', RegularFile ''PNG'' 1700000000 True),
      (''/srv/notes.txt'', RegularFile ''notes'' 1700000000 True)]\<close>

definition example_world :: world where
  "example_world =
     \<lparr>stdout = [], stderr = [], extensions_map = CustomHandler_extensions_map,
      filesystem = example_fs, cwd = ''/srv'', listening_socket = NoSocket, delivered = []\<rparr>"

definition example_handler :: handler where
  "example_handler = new_handler example_world ''127.0.0.1''"

text \<open>A request whose first line is \<open>line\<close> and whose headers are \<open>hs\<close>.\<close>

definition request_of :: "string \<Rightarrow> (string \<times> string) list \<Rightarrow> request" where
  "request_of line hs = \<lparr>rfile = line @ CRLF, header_lines = Parsed hs\<rparr>"

text \<open>What a handler in state \<open>h\<close> puts on the wire when it ends a header that consists of
  \<open>lines\<close>, and its buffer afterwards: a request of version HTTP/0.9 gets no header at all.\<close>

definition sent_head :: "handler \<Rightarrow> string list \<Rightarrow> string list" where
  "sent_head h lines =
     (if request_version h \<noteq> ''HTTP/0.9'' then [concat (buffered h) @ header_block lines]
      else [])"

definition flushed :: "handler \<Rightarrow> string list option" where
  "flushed h = (if request_version h \<noteq> ''HTTP/0.9'' then Some [] else headers_buffer h)"

text \<open>The header lines of the responses that \<open>send_head\<close> and \<open>list_directory\<close> produce.\<close>

definition file_headers :: "env \<Rightarrow> string \<Rightarrow> nat \<Rightarrow> int \<Rightarrow> string list" where
  "file_headers E ctype len mtime =
     [status_line OK ''OK'',
      header_line ''Server'' (version_string E),
      header_line ''Date'' (date_time_string E None),
      header_line ''Content-type'' ctype,
      header_line ''Content-Length'' (str_nat len),
      header_line ''Last-Modified'' (date_time_string E (Some mtime)),
      header_line ''Access-Control-Allow-Origin'' ''*'']"

definition not_modified_headers :: "env \<Rightarrow> string list" where
  "not_modified_headers E =
     [status_line NOT_MODIFIED ''Not Modified'',
      header_line ''Server'' (version_string E),
      header_line ''Date'' (date_time_string E None),
      header_line ''Access-Control-Allow-Origin'' ''*'']"

definition redirect_headers :: "env \<Rightarrow> string \<Rightarrow> string list" where
  "redirect_headers E location =
     [status_line MOVED_PERMANENTLY ''Moved Permanently'',
      header_line ''Server'' (version_string E),
      header_line ''Date'' (date_time_string E None),
      header_line ''Location'' location,
      header_line ''Content-Length'' ''0'',
      header_line ''Access-Control-Allow-Origin'' ''*'']"

definition listing_headers :: "env \<Rightarrow> nat \<Rightarrow> string list" where
  "listing_headers E len =
     [status_line OK ''OK'',
      header_line ''Server'' (version_string E),
      header_line ''Date'' (date_time_string E None),
      header_line ''Content-type'' (''text/html; charset='' @ getfilesystemencoding E),
      header_line ''Content-Length'' (str_nat len),
      header_line ''Access-Control-Allow-Origin'' ''*'']"

text \<open>The state after a response head with status \<open>code\<close> and header \<open>lines\<close>, followed by
  the writes \<open>body\<close>: one log line, the flushed header and the body.\<close>

definition responded :: "handler \<Rightarrow> HTTPStatus \<Rightarrow> string list \<Rightarrow> string list \<Rightarrow> handler" where
  "responded h code lines body =
     h\<lparr>stdout := stdout h @ [request_log h code],
       headers_buffer := flushed h,
       wfile := wfile h @ sent_head h lines @ body\<rparr>"

text \<open>The state after \<open>send_error\<close>: two log lines, the connection marked for closing, the
  flushed header and, unless the command is HEAD, the error page.\<close>

definition error_sent :: "env \<Rightarrow> handler \<Rightarrow> HTTPStatus \<Rightarrow> string \<Rightarrow> string \<Rightarrow> handler" where
  "error_sent E h code message explain =
     h\<lparr>stdout := stdout h @ [error_log h code message, request_log h code],
       close_connection := True,
       headers_buffer := flushed h,
       wfile := wfile h @ sent_head h (error_headers E code message explain)
                @ (if command h \<noteq> Some ''HEAD'' then [error_body code message explain] else [])\<rparr>"

text \<open>\<open>hx\<close> differs from \<open>h\<close> at most in what \<open>parse_request\<close> sets: the request line, the
  command, the path, the version, the headers and the flag for closing the connection.\<close>

definition prepared :: "handler \<Rightarrow> handler \<Rightarrow> bool" where
  "prepared h hx =
     (stdout hx = stdout h \<and> stderr hx = stderr h \<and> extensions_map hx = extensions_map h
      \<and> filesystem hx = filesystem h \<and> cwd hx = cwd h \<and> directory hx = directory h
      \<and> client_address hx = client_address h \<and> headers_buffer hx = headers_buffer h
      \<and> wfile hx = wfile h)"

text \<open>The state in which a command runs after \<open>parse_request\<close> has accepted the request
  line \<open>line\<close> with the three words \<open>cmd\<close>, \<open>p\<close> and \<open>version\<close> and the headers \<open>hs\<close>.\<close>

definition accepted ::
  "handler \<Rightarrow> string \<Rightarrow> string \<Rightarrow> string \<Rightarrow> string \<Rightarrow> (string \<times> string) list \<Rightarrow> handler"
  where
  "accepted h line cmd p version hs =
     h\<lparr>raw_requestline := line, requestline := rstrip_chars [CR, LF] line,
       command := Some cmd,
       path := (if prefix ''//'' p then ''/'' @ lstrip_chars ''/'' p else p),
       request_version := version, close_connection := True, headers := hs\<rparr>"

text \<open>The words of the request line, as \<open>handle_one_request\<close> reads and \<open>parse_request\<close>
  splits it.\<close>

definition request_words :: "request \<Rightarrow> string list" where
  "request_words req = split_ws (rstrip_chars [CR, LF] (readline 65537 (rfile req)))"

text \<open>An event that raises no exception in the loop.\<close>

fun quiet :: "event \<Rightarrow> bool" where
  "quiet (Signal e) = False"
| "quiet ev = True"

definition shutdown_notice :: "string list" where
  "shutdown_notice = [[LF] @ ''Server stopped.'', [LF]]"

text \<open>How \<open>parse_request\<close> can end for a handler that started as \<open>h0\<close>: without a word to the
  client, with an error page, or with the request parsed and a command to run; the
  connection is always marked for closing.\<close>

abbreviation parse_outcome :: "env \<Rightarrow> handler \<Rightarrow> (handler \<times> bool) option \<Rightarrow> bool" where
  "parse_outcome E h0 r \<equiv>
     \<exists>hx. prepared h0 hx \<and>
       (close_connection hx \<and> r = Some (hx, False)
        \<or> (\<exists>code m e. code \<in> {BAD_REQUEST, HTTP_VERSION_NOT_SUPPORTED,
                                  REQUEST_HEADER_FIELDS_TOO_LARGE}
               \<and> r = Some (error_sent E hx code m e, False))
        \<or> (\<exists>cmd. command hx = Some cmd \<and> close_connection hx \<and> r = Some (hx, True)))"

text \<open>How \<open>send_head\<close> and its parts can end: with an exception, with the page of error 404,
  or with a response head of status 200, 301 or 304 that starts with the status line and
  ends with the line that \<open>end_headers\<close> adds.\<close>

abbreviation head_outcome ::
  "env \<Rightarrow> handler \<Rightarrow> (handler \<times> string option) option \<Rightarrow> bool" where
  "head_outcome E h r \<equiv>
     r = None
     \<or> (\<exists>m. r = Some (error_sent E h NOT_FOUND m (description NOT_FOUND), None))
     \<or> (\<exists>code lines f. code \<in> {OK, MOVED_PERMANENTLY, NOT_MODIFIED} \<and> lines \<noteq> []
           \<and> hd lines = status_line code (phrase code)
           \<and> last lines = header_line ''Access-Control-Allow-Origin'' ''*''
           \<and> r = Some (responded h code lines [], f))"

text \<open>How \<open>handle_one_request\<close> can end: with an exception, without a word to the client,
  with an error page, or with a response of status 200, 301 or 304 whose header starts with
  the status line and ends with the line that \<open>end_headers\<close> adds, followed by the blocks of
  a file.\<close>

abbreviation request_outcome :: "env \<Rightarrow> handler \<Rightarrow> handler option \<Rightarrow> bool" where
  "request_outcome E h0 r \<equiv>
     \<exists>hx. prepared h0 hx \<and>
       (r = None
        \<or> close_connection hx \<and> r = Some hx
        \<or> (\<exists>code m e. code \<in> {BAD_REQUEST, NOT_FOUND, REQUEST_URI_TOO_LONG,
                                  REQUEST_HEADER_FIELDS_TOO_LARGE, NOT_IMPLEMENTED,
                                  HTTP_VERSION_NOT_SUPPORTED}
               \<and> r = Some (error_sent E hx code m e))
        \<or> (\<exists>code lines source. code \<in> {OK, MOVED_PERMANENTLY, NOT_MODIFIED}
               \<and> close_connection hx
               \<and> lines \<noteq> [] \<and> hd lines = status_line code (phrase code)
               \<and> last lines = header_line ''Access-Control-Allow-Origin'' ''*''
               \<and> r = Some (responded hx code lines (copyfileobj source))))"

section \<open>Properties\<close>


subsection \<open>Logging and response headers in closed form\<close>

lemma percent_log_line:
  "percent (''%s - %s'' @ [LF]) [PyStr a, PyStr m] = Some (a @ '' - '' @ m @ [LF])"
  by (simp add: LF_def)

lemma log_request_eq:
  "log_request h code = Some (h\<lparr>stdout := stdout h @ [request_log h code]\<rparr>)"
  by (simp add: log_request_def log_message_def request_log_def address_string_def LF_def)

lemma log_error_eq:
  "log_error h ''code %d, message %s'' [PyInt (status_value code), PyStr m] =
     Some (h\<lparr>stdout := stdout h @ [error_log h code m]\<rparr>)"
  by (simp add: log_error_def log_message_def error_log_def address_string_def LF_def)

lemma lower_Connection: "lower ''Connection'' = ''connection''"
  by code_simp

lemma lower_close: "lower ''close'' = ''close''"
  by code_simp

lemma lower_not_connection:
  "lower ''Access-Control-Allow-Origin'' \<noteq> ''connection''"
  "lower ''Server'' \<noteq> ''connection''"
  "lower ''Date'' \<noteq> ''connection''"
  "lower ''Content-Type'' \<noteq> ''connection''"
  "lower ''Content-type'' \<noteq> ''connection''"
  "lower ''Content-Length'' \<noteq> ''connection''"
  "lower ''Last-Modified'' \<noteq> ''connection''"
  "lower ''Location'' \<noteq> ''connection''"
  by (simp_all add: lower_def)

lemma request_log_upd [simp]:
  "request_log (h\<lparr>stdout := x\<rparr>) code = request_log h code"
  "request_log (h\<lparr>close_connection := y\<rparr>) code = request_log h code"
  "request_log (h\<lparr>headers_buffer := z\<rparr>) code = request_log h code"
  by (simp_all add: request_log_def)

lemma buffered_upd [simp]:
  "buffered (h\<lparr>stdout := x\<rparr>) = buffered h"
  "buffered (h\<lparr>close_connection := y\<rparr>) = buffered h"
  "buffered (h\<lparr>headers_buffer := Some b\<rparr>) = b"
  by (simp_all add: buffered_def)

lemma message_of_simps [simp]:
  "message_of code (Some m) = m"
  "message_of code None = phrase code"
  "explain_of code (Some e) = e"
  "explain_of code None = description code"
  by (simp_all add: message_of_def explain_of_def)

lemma header_block_Cons: "header_block (l # ls) = l @ CRLF @ header_block ls"
  by (simp add: header_block_def)

lemma header_block_Nil: "header_block [] = CRLF"
  by (simp add: header_block_def)

lemma send_header_plain:
  "lower k \<noteq> ''connection'' \<Longrightarrow>
   send_header h k v =
     (if request_version h \<noteq> ''HTTP/0.9''
      then h\<lparr>headers_buffer := Some (buffered h @ [header_line k v @ CRLF])\<rparr> else h)"
  by (simp add: send_header_def buffered_def Let_def header_line_def)

lemma send_header_close:
  "send_header h ''Connection'' ''close'' =
     (if request_version h \<noteq> ''HTTP/0.9''
      then h\<lparr>headers_buffer := Some (buffered h @ [header_line ''Connection'' ''close'' @ CRLF]),
              close_connection := True\<rparr>
      else h\<lparr>close_connection := True\<rparr>)"
  by (simp add: send_header_def buffered_def Let_def lower_Connection lower_close header_line_def)

lemma send_response_only_eq:
  "send_response_only h code message =
     (if request_version h \<noteq> ''HTTP/0.9''
      then h\<lparr>headers_buffer :=
               Some (buffered h @ [status_line code (message_of code message) @ CRLF])\<rparr>
      else h)"
  by (simp add: send_response_only_def buffered_def Let_def status_line_def message_of_def)

lemma end_headers_eq:
  "end_headers h =
     Some (if request_version h \<noteq> ''HTTP/0.9''
           then h\<lparr>headers_buffer := Some [],
                   wfile := wfile h @
                     [concat (buffered h) @ header_line ''Access-Control-Allow-Origin'' ''*'' @ CRLF @ CRLF]\<rparr>
           else h)"
  by (simp add: end_headers_def BaseHTTPRequestHandler_end_headers_def send_header_plain
        lower_not_connection flush_headers_def buffered_def)

lemma send_response_eq:
  "send_response E h code message =
     Some (if request_version h \<noteq> ''HTTP/0.9''
           then h\<lparr>stdout := stdout h @ [request_log h code],
                   headers_buffer :=
                     Some (buffered h @
                       [status_line code (message_of code message) @ CRLF,
                        header_line ''Server'' (version_string E) @ CRLF,
                        header_line ''Date'' (date_time_string E None) @ CRLF])\<rparr>
           else h\<lparr>stdout := stdout h @ [request_log h code]\<rparr>)"
  by (simp add: send_response_def log_request_eq send_response_only_eq send_header_plain
        lower_not_connection)

lemma error_body_nonempty: "error_body code message explain \<noteq> []"
  by (simp add: error_body_def error_message_format_def encode_utf8_def Let_def)

lemma send_error_eq:
  assumes "200 \<le> status_value code" "status_value code \<notin> {204, 205, 304}"
  shows "send_error E h code message explain =
           Some (error_sent E h code (message_of code message) (explain_of code explain))"
proof (cases "request_version h = ''HTTP/0.9''")
  case True
  with assms show ?thesis
    unfolding send_error_def
    apply (simp only: option.case Let_def log_error_eq bind.bind_lunit)
    apply (simp only: send_response_eq)
    apply (simp add: send_header_close send_header_plain lower_not_connection end_headers_eq
             error_body_def[symmetric] error_body_nonempty)
    apply (simp only: message_of_def[symmetric] explain_of_def[symmetric])
    apply (simp add: error_sent_def sent_head_def flushed_def)
    done
next
  case False
  with assms show ?thesis
    unfolding send_error_def
    apply (simp only: option.case Let_def log_error_eq bind.bind_lunit)
    apply (simp only: send_response_eq)
    apply (simp add: send_header_close send_header_plain lower_not_connection end_headers_eq
             error_body_def[symmetric] error_body_nonempty)
    apply (simp only: message_of_def[symmetric] explain_of_def[symmetric])
    apply (simp add: error_sent_def sent_head_def flushed_def error_headers_def
             header_block_Cons header_block_Nil)
    done
qed

subsection \<open>The content type of a path\<close>

lemma extensions_map_keys_lower:
  "map_of CustomHandler_extensions_map ext = Some t \<Longrightarrow>
   map_of CustomHandler_extensions_map (lower ext) = Some t"
proof -
  assume a: "map_of CustomHandler_extensions_map ext = Some t"
  then have "(ext, t) \<in> set CustomHandler_extensions_map"
    by (rule map_of_SomeD)
  then have "lower ext = ext"
    unfolding CustomHandler_extensions_map_def
    by (auto simp: lower_def lower_char_def)
  with a show ?thesis by simp
qed

text \<open>
  C3 (as amended). The content type of a path is the entry of the MIME table for the
  extension that \<open>splitext\<close> gives, compared without regard to case; when the table has no
  entry, it is what the platform's \<open>mimetypes\<close> table says, and
  \<open>application/octet-stream\<close>, the value of the table's entry for the empty extension, only
  when that has no answer either.
\<close>

theorem guess_type_resolution:
  assumes "extensions_map h = CustomHandler_extensions_map"
  shows "guess_type E h p =
           (case map_of CustomHandler_extensions_map (lower (snd (splitext p))) of
              Some t \<Rightarrow> t
            | None \<Rightarrow>
                (case mimetypes_guess_type E p of
                   Some guess \<Rightarrow> if guess \<noteq> [] then guess else ''application/octet-stream''
                 | None \<Rightarrow> ''application/octet-stream''))
         \<and> map_of CustomHandler_extensions_map [] = Some ''application/octet-stream''"
proof -
  have e: "map_of CustomHandler_extensions_map [] = Some ''application/octet-stream''"
    by (simp add: CustomHandler_extensions_map_def)
  show ?thesis
  proof (cases "map_of CustomHandler_extensions_map (snd (splitext p))")
    case None
    then show ?thesis
      using assms e by (simp add: guess_type_def)
  next
    case (Some t)
    then show ?thesis
      using assms e extensions_map_keys_lower[OF Some] by (simp add: guess_type_def)
  qed
qed

lemma example_handler_extensions_map:
  "extensions_map example_handler = CustomHandler_extensions_map"
  by (simp add: example_handler_def new_handler_def example_world_def)

theorem guess_type_resolution_witness:
  "extensions_map example_handler = CustomHandler_extensions_map
   \<and> guess_type example_env example_handler ''/srv/notes.txt'' = ''text/plain''"
proof -
  have r: "(case map_of CustomHandler_extensions_map (lower (snd (splitext ''/srv/notes.txt''))) of
              Some t \<Rightarrow> t
            | None \<Rightarrow>
                (case mimetypes_guess_type example_env ''/srv/notes.txt'' of
                   Some guess \<Rightarrow> if guess \<noteq> [] then guess else ''application/octet-stream''
                 | None \<Rightarrow> ''application/octet-stream'')) = ''text/plain''"
    by code_simp
  from guess_type_resolution[OF example_handler_extensions_map, of example_env "''/srv/notes.txt''"]
  show ?thesis
    by (simp add: r example_handler_extensions_map)
qed

theorem uppercase_extension_counterexample:
  "snd (splitext ''/srv/INDEX.HTML'') = ''.HTML''
   \<and> map_of (extensions_map example_handler) ''.HTML'' = None
   \<and> guess_type example_env example_handler ''/srv/INDEX.HTML'' = ''text/html''"
  by code_simp

subsection \<open>\<open>main\<close>: binding, serving, stopping\<close>

lemma handle_request_noblock_socket:
  "listening_socket (handle_request_noblock E w addr reqs) = listening_socket w"
  by (simp add: handle_request_noblock_def finish_request_def handle_error_def
        split: option.splits)

lemma serve_forever_socket:
  "listening_socket (snd (serve_forever E w evs)) = listening_socket w"
  by (induction E w evs rule: serve_forever.induct) (simp_all add: handle_request_noblock_socket)

lemma banner_socket: "listening_socket (banner w) = listening_socket w"
  by (simp add: banner_def print_def)

lemma serve_forever_quiet:
  "list_all quiet pre \<Longrightarrow> fst (serve_forever E w pre) = None"
  by (induction E w pre rule: serve_forever.induct) simp_all

lemma serve_forever_signal:
  "list_all quiet pre \<Longrightarrow>
   serve_forever E w (pre @ Signal e # post) = (Some e, snd (serve_forever E w pre))"
  by (induction E w pre rule: serve_forever.induct) simp_all

text \<open>
  C7 (as amended). When port 9000 is in use, the constructor of \<open>TCPServer\<close> raises
  \<open>OSError\<close> and \<open>main\<close> does not catch it: \<open>main\<close> writes nothing to standard output, neither
  the banner nor a message of its own, and the exception leaves it after the socket has
  been closed. What the process reports is the interpreter's traceback of the uncaught
  exception on standard error (the heading, the stack frames and the line that names the
  error), and it exits with status 1.
\<close>

theorem bind_failure_exits_nonzero:
  assumes "PORT \<in> set ports_in_use"
  shows "fst (main E ports_in_use w evs) = Propagated (OSError (address_in_use E))
         \<and> fst (script E ports_in_use w evs) = Some 1
         \<and> stdout (snd (script E ports_in_use w evs)) = stdout w
         \<and> stderr (snd (script E ports_in_use w evs)) =
             stderr w @ [''Traceback (most recent call last):'' @ [LF]]
               @ stack_frames E (OSError (address_in_use E))
               @ [''OSError: '' @ address_in_use E @ [LF]]
         \<and> listening_socket (snd (script E ports_in_use w evs)) = Closed"
  using assms by (simp add: script_def main_def uncaught_def traceback_def server_close_def)

theorem bind_failure_exits_nonzero_witness:
  "PORT \<in> set [9000]
   \<and> fst (script example_env [9000] example_world [Timeout]) = Some 1
   \<and> stdout (snd (script example_env [9000] example_world [Timeout])) = []
   \<and> last (stderr (snd (script example_env [9000] example_world [Timeout]))) =
         ''OSError: [Errno 98] Address already in use'' @ [LF]"
proof -
  have p: "PORT \<in> set [9000]" by (simp add: PORT_def)
  from bind_failure_exits_nonzero[OF p, of example_env example_world "[Timeout]"] p
  show ?thesis by (simp add: example_world_def example_env_def)
qed

text \<open>
  With port 9000 taken, all that the process writes is the traceback of the \<open>OSError\<close> that
  left \<open>main\<close>: the program has no message of its own for this failure.
\<close>

theorem bind_failure_traceback_counterexample:
  "fst (main example_env [9000] example_world []) =
     Propagated (OSError ''[Errno 98] Address already in use'')
   \<and> stdout (snd (script example_env [9000] example_world [])) = []
   \<and> stderr (snd (script example_env [9000] example_world [])) =
       [''Traceback (most recent call last):'' @ [LF]] @ bind_frames
         @ [''OSError: [Errno 98] Address already in use'' @ [LF]]"
  by (simp add: script_def main_def uncaught_def traceback_def server_close_def PORT_def
        example_world_def example_env_def)

text \<open>
  C8. When the first exception raised in the serving loop is \<open>KeyboardInterrupt\<close>, \<open>main\<close>
  prints the shutdown notice after everything written so far, the loop is left, the
  listening socket is closed and the process exits with status 0.
\<close>

theorem interrupt_stops_server:
  assumes "PORT \<notin> set ports_in_use" and "list_all quiet pre"
  shows "script E ports_in_use w (pre @ Signal KeyboardInterrupt # post) =
           (Some 0,
            server_close
              (print (snd (serve_forever E (banner (w\<lparr>listening_socket := Listening\<rparr>)) pre))
                 ([LF] @ ''Server stopped.'')))
         \<and> stdout (snd (script E ports_in_use w (pre @ Signal KeyboardInterrupt # post))) =
             stdout (snd (serve_forever E (banner (w\<lparr>listening_socket := Listening\<rparr>)) pre))
               @ shutdown_notice"
  using assms
  by (simp add: script_def main_def serve_forever_signal server_close_def print_def
        shutdown_notice_def)

theorem interrupt_stops_server_witness:
  "PORT \<notin> set [8080] \<and> list_all quiet [Timeout, AcceptError]
   \<and> fst (script example_env [8080] example_world
             ([Timeout, AcceptError] @ Signal KeyboardInterrupt # [Timeout])) = Some 0
   \<and> stdout (snd (script example_env [8080] example_world
                    ([Timeout, AcceptError] @ Signal KeyboardInterrupt # [Timeout]))) =
       stdout (banner (example_world\<lparr>listening_socket := Listening\<rparr>)) @ shutdown_notice"
proof -
  have p: "PORT \<notin> set [8080]" by (simp add: PORT_def)
  have q: "list_all quiet [Timeout, AcceptError]" by simp
  from interrupt_stops_server[OF p q, of example_env example_world "[Timeout]"] p q
  show ?thesis by (simp add: server_close_def print_def shutdown_notice_def)
qed

text \<open>
  C10. Whatever exception leaves the serving loop, the listening socket, open while the
  loop ran, is closed when \<open>main\<close> is left: \<open>main\<close> returns after printing the shutdown
  notice when the exception is \<open>KeyboardInterrupt\<close>, and any other exception leaves
  \<open>main\<close> with nothing printed.
\<close>

theorem socket_closed_on_every_exit:
  assumes "PORT \<notin> set ports_in_use"
    and "serve_forever E (banner (w\<lparr>listening_socket := Listening\<rparr>)) evs = (Some e, w1)"
  shows "listening_socket w1 = Listening
         \<and> listening_socket (snd (main E ports_in_use w evs)) = Closed
         \<and> fst (main E ports_in_use w evs) =
             (if e = KeyboardInterrupt then Returned else Propagated e)
         \<and> stdout (snd (main E ports_in_use w evs)) =
             stdout w1 @ (if e = KeyboardInterrupt then shutdown_notice else [])"
proof -
  have "listening_socket w1 =
          listening_socket (banner (w\<lparr>listening_socket := Listening\<rparr>))"
    using serve_forever_socket[of E "banner (w\<lparr>listening_socket := Listening\<rparr>)" evs] assms(2)
    by simp
  then have l: "listening_socket w1 = Listening"
    by (simp add: banner_socket)
  show ?thesis
    using assms l
    by (cases e) (simp_all add: main_def server_close_def print_def shutdown_notice_def)
qed

theorem socket_closed_on_every_exit_witness:
  "PORT \<notin> set [8080]
   \<and> serve_forever example_env (banner (example_world\<lparr>listening_socket := Listening\<rparr>))
        [Timeout, Signal (RuntimeError ''boom'')] =
       (Some (RuntimeError ''boom''), banner (example_world\<lparr>listening_socket := Listening\<rparr>))
   \<and> listening_socket
        (snd (main example_env [8080] example_world [Timeout, Signal (RuntimeError ''boom'')])) =
       Closed
   \<and> fst (main example_env [8080] example_world [Timeout, Signal (RuntimeError ''boom'')]) =
       Propagated (RuntimeError ''boom'')"
proof -
  have p: "PORT \<notin> set [8080]" by (simp add: PORT_def)
  have s: "serve_forever example_env (banner (example_world\<lparr>listening_socket := Listening\<rparr>))
             [Timeout, Signal (RuntimeError ''boom'')] =
           (Some (RuntimeError ''boom''), banner (example_world\<lparr>listening_socket := Listening\<rparr>))"
    by simp
  from socket_closed_on_every_exit[OF p s] p s
  show ?thesis by simp
qed

subsection \<open>With and without a header: the two kinds of requests\<close>

lemma send_header_09:
  "request_version h = ''HTTP/0.9'' \<Longrightarrow> lower k \<noteq> ''connection'' \<Longrightarrow> send_header h k v = h"
  by (simp add: send_header_plain)

lemma send_header_1x:
  "request_version h \<noteq> ''HTTP/0.9'' \<Longrightarrow> lower k \<noteq> ''connection'' \<Longrightarrow>
   send_header h k v = h\<lparr>headers_buffer := Some (buffered h @ [header_line k v @ CRLF])\<rparr>"
  by (simp add: send_header_plain)

lemma send_response_09:
  "request_version h = ''HTTP/0.9'' \<Longrightarrow>
   send_response E h code message = Some (h\<lparr>stdout := stdout h @ [request_log h code]\<rparr>)"
  by (simp add: send_response_eq)

lemma send_response_1x:
  "request_version h \<noteq> ''HTTP/0.9'' \<Longrightarrow>
   send_response E h code message =
     Some (h\<lparr>stdout := stdout h @ [request_log h code],
             headers_buffer :=
               Some (buffered h @
                 [status_line code (message_of code message) @ CRLF,
                  header_line ''Server'' (version_string E) @ CRLF,
                  header_line ''Date'' (date_time_string E None) @ CRLF])\<rparr>)"
  by (simp add: send_response_eq)

lemma end_headers_09:
  "request_version h = ''HTTP/0.9'' \<Longrightarrow> end_headers h = Some h"
  by (simp add: end_headers_eq)

lemma end_headers_1x:
  "request_version h \<noteq> ''HTTP/0.9'' \<Longrightarrow>
   end_headers h =
     Some (h\<lparr>headers_buffer := Some [],
             wfile := wfile h @
               [concat (buffered h) @ header_line ''Access-Control-Allow-Origin'' ''*''
                  @ CRLF @ CRLF]\<rparr>)"
  by (simp add: end_headers_eq)

lemma responded_09:
  "request_version h = ''HTTP/0.9'' \<Longrightarrow>
   responded h code lines body =
     h\<lparr>stdout := stdout h @ [request_log h code], wfile := wfile h @ body\<rparr>"
  by (simp add: responded_def flushed_def sent_head_def)

lemma responded_1x:
  "request_version h \<noteq> ''HTTP/0.9'' \<Longrightarrow>
   responded h code lines body =
     h\<lparr>stdout := stdout h @ [request_log h code], headers_buffer := Some [],
       wfile := wfile h @ [concat (buffered h) @ header_block lines] @ body\<rparr>"
  by (simp add: responded_def flushed_def sent_head_def)

subsection \<open>Serving a file in closed form\<close>

lemma os_stat_slash:
  "suffix ''/'' p \<Longrightarrow> os_stat fs p = Some (RegularFile b t r) \<Longrightarrow> False"
  by (auto simp: os_stat_def Let_def split: if_splits option.splits fs_entry.splits)

lemma open_rb_no_slash: "open_rb fs p = Opened f t \<Longrightarrow> \<not> suffix ''/'' p"
  by (auto simp: open_rb_def split: option.splits fs_entry.splits if_splits dest: os_stat_slash)

lemma open_rb_not_dir: "open_rb fs p = Opened f t \<Longrightarrow> \<not> os_path_isdir fs p"
  by (auto simp: open_rb_def os_path_isdir_def split: option.splits fs_entry.splits if_splits)

lemma send_head_file_not_found:
  assumes "suffix ''/'' p \<or> open_rb (filesystem h) p = Raised_OSError"
  shows "send_head_file E h p =
           Some (error_sent E h NOT_FOUND ''File not found'' (description NOT_FOUND), None)"
  using assms
  by (auto simp: send_head_file_def Let_def send_error_eq)

lemma send_head_file_not_modified:
  assumes "open_rb (filesystem h) p = Opened f mtime" and "not_modified_since E h mtime"
  shows "send_head_file E h p = Some (responded h NOT_MODIFIED (not_modified_headers E) [], None)"
proof (cases "request_version h = ''HTTP/0.9''")
  case True
  with assms open_rb_no_slash[OF assms(1)] show ?thesis
    by (simp add: send_head_file_def Let_def send_response_09 end_headers_09 responded_09)
next
  case False
  with assms open_rb_no_slash[OF assms(1)] show ?thesis
    by (simp add: send_head_file_def Let_def send_response_1x end_headers_1x responded_1x
          not_modified_headers_def header_block_Cons header_block_Nil)
qed

lemma send_head_file_ok:
  assumes "open_rb (filesystem h) p = Opened f mtime" and "\<not> not_modified_since E h mtime"
  shows "send_head_file E h p =
           Some (responded h OK (file_headers E (guess_type E h p) (length f) mtime) [], Some f)"
proof (cases "request_version h = ''HTTP/0.9''")
  case True
  with assms open_rb_no_slash[OF assms(1)] show ?thesis
    by (simp add: send_head_file_def Let_def send_response_09 end_headers_09 responded_09
          send_header_09 lower_not_connection)
next
  case False
  with assms open_rb_no_slash[OF assms(1)] show ?thesis
    by (simp add: send_head_file_def Let_def send_response_1x end_headers_1x responded_1x
          send_header_1x lower_not_connection file_headers_def header_block_Cons
          header_block_Nil)
qed

lemma list_directory_denied:
  assumes "os_listdir (filesystem h) p = None"
  shows "list_directory E h p =
           Some (error_sent E h NOT_FOUND ''No permission to list directory''
                   (description NOT_FOUND), None)"
  using assms by (simp add: list_directory_def send_error_eq)

lemma list_directory_ok:
  assumes "os_listdir (filesystem h) p = Some list"
    and "directory_page E (filesystem h) (path h) p list = Some encoded"
  shows "list_directory E h p =
           Some (responded h OK (listing_headers E (length encoded)) [], Some encoded)"
proof (cases "request_version h = ''HTTP/0.9''")
  case True
  with assms show ?thesis
    by (simp add: list_directory_def Let_def send_response_09 end_headers_09 responded_09
          send_header_09 lower_not_connection)
next
  case False
  with assms show ?thesis
    by (simp add: list_directory_def Let_def send_response_1x end_headers_1x responded_1x
          send_header_1x lower_not_connection listing_headers_def header_block_Cons
          header_block_Nil)
qed

lemma send_head_redirect:
  assumes "os_path_isdir (filesystem h) (translate_path E h (path h))"
    and "urlsplit E (path h) = Some (scheme, netloc, ppath, query, fragment)"
    and "\<not> suffix ''/'' ppath"
  shows "send_head E h =
           Some (responded h MOVED_PERMANENTLY
                   (redirect_headers E
                      (urlunsplit E (scheme, netloc, ppath @ ''/'', query, fragment))) [],
                 None)"
proof (cases "request_version h = ''HTTP/0.9''")
  case True
  with assms show ?thesis
    by (simp add: send_head_def Let_def send_response_09 end_headers_09 responded_09
          send_header_09 lower_not_connection)
next
  case False
  with assms show ?thesis
    by (simp add: send_head_def Let_def send_response_1x end_headers_1x responded_1x
          send_header_1x lower_not_connection redirect_headers_def header_block_Cons
          header_block_Nil)
qed

lemma send_head_plain_file:
  assumes "\<not> os_path_isdir (filesystem h) (translate_path E h (path h))"
  shows "send_head E h = send_head_file E h (translate_path E h (path h))"
  using assms by (simp add: send_head_def Let_def)

lemma copyfile_responded:
  "copyfile (responded h code lines []) source = responded h code lines (copyfileobj source)"
  by (simp add: copyfile_def responded_def)

lemma concat_copyfileobj: "concat (copyfileobj source) = source"
proof (induction source rule: copyfileobj.induct)
  case (1 src)
  show ?case
  proof (cases "take COPY_BUFSIZE src = []")
    case True
    then have "src = []" by (simp add: COPY_BUFSIZE_def)
    then show ?thesis by (simp add: copyfileobj.simps[of "[]"])
  next
    case False
    with 1 show ?thesis
      by (subst copyfileobj.simps) (simp add: Let_def)
  qed
qed

subsection \<open>The possible outcomes of a request\<close>

lemma last_headers [simp]:
  "last (file_headers E ctype len mtime) = header_line ''Access-Control-Allow-Origin'' ''*''"
  "last (not_modified_headers E) = header_line ''Access-Control-Allow-Origin'' ''*''"
  "last (redirect_headers E location) = header_line ''Access-Control-Allow-Origin'' ''*''"
  "last (listing_headers E len) = header_line ''Access-Control-Allow-Origin'' ''*''"
  "last (error_headers E code m e) = header_line ''Access-Control-Allow-Origin'' ''*''"
  by (simp_all add: file_headers_def not_modified_headers_def redirect_headers_def
        listing_headers_def error_headers_def)

lemma hd_headers [simp]:
  "hd (file_headers E ctype len mtime) = status_line OK (phrase OK)"
  "hd (not_modified_headers E) = status_line NOT_MODIFIED (phrase NOT_MODIFIED)"
  "hd (redirect_headers E location) = status_line MOVED_PERMANENTLY (phrase MOVED_PERMANENTLY)"
  "hd (listing_headers E len) = status_line OK (phrase OK)"
  "hd (error_headers E code m e) = status_line code m"
  by (simp_all add: file_headers_def not_modified_headers_def redirect_headers_def
        listing_headers_def error_headers_def)

lemma headers_nonempty [simp]:
  "file_headers E ctype len mtime \<noteq> []"
  "not_modified_headers E \<noteq> []"
  "redirect_headers E location \<noteq> []"
  "listing_headers E len \<noteq> []"
  "error_headers E code m e \<noteq> []"
  by (simp_all add: file_headers_def not_modified_headers_def redirect_headers_def
        listing_headers_def error_headers_def)

lemma head_raisedI: "r = None \<Longrightarrow> head_outcome E h r"
  by blast

lemma head_errorI:
  "r = Some (error_sent E h NOT_FOUND m (description NOT_FOUND), None) \<Longrightarrow> head_outcome E h r"
  by blast

lemma head_respondedI:
  "r = Some (responded h code lines [], f) \<Longrightarrow>
   code \<in> {OK, MOVED_PERMANENTLY, NOT_MODIFIED} \<Longrightarrow> lines \<noteq> [] \<Longrightarrow>
   hd lines = status_line code (phrase code) \<Longrightarrow>
   last lines = header_line ''Access-Control-Allow-Origin'' ''*'' \<Longrightarrow>
   head_outcome E h r"
  by blast

lemma send_head_file_raises:
  assumes "\<not> suffix ''/'' p" and "open_rb (filesystem h) p = Raised_ValueError"
  shows "send_head_file E h p = None"
  using assms by (simp add: send_head_file_def)

lemma send_head_file_outcome: "head_outcome E h (send_head_file E h p)"
proof (cases "suffix ''/'' p")
  case True
  show ?thesis
    by (rule head_errorI) (rule send_head_file_not_found, simp add: True)
next
  case slash: False
  show ?thesis
  proof (cases "open_rb (filesystem h) p")
    case Raised_ValueError
    show ?thesis
      by (rule head_raisedI) (rule send_head_file_raises[OF slash Raised_ValueError])
  next
    case Raised_OSError
    show ?thesis
      by (rule head_errorI) (rule send_head_file_not_found, simp add: Raised_OSError)
  next
    case (Opened f mtime)
    show ?thesis
    proof (cases "not_modified_since E h mtime")
      case True
      show ?thesis
        by (rule head_respondedI[OF send_head_file_not_modified[OF Opened True]]) simp_all
    next
      case False
      show ?thesis
        by (rule head_respondedI[OF send_head_file_ok[OF Opened False]]) simp_all
    qed
  qed
qed

lemma list_directory_raises:
  assumes "os_listdir (filesystem h) p = Some list"
    and "directory_page E (filesystem h) (path h) p list = None"
  shows "list_directory E h p = None"
  using assms by (simp add: list_directory_def)

lemma list_directory_outcome: "head_outcome E h (list_directory E h p)"
proof (cases "os_listdir (filesystem h) p")
  case None
  show ?thesis
    by (rule head_errorI) (rule list_directory_denied[OF None])
next
  case (Some list)
  show ?thesis
  proof (cases "directory_page E (filesystem h) (path h) p list")
    case None
    show ?thesis
      by (rule head_raisedI) (rule list_directory_raises[OF Some None])
  next
    case page: (Some encoded)
    show ?thesis
      by (rule head_respondedI[OF list_directory_ok[OF Some page]]) simp_all
  qed
qed

lemma send_head_raises:
  assumes "os_path_isdir (filesystem h) (translate_path E h (path h))"
    and "urlsplit E (path h) = None"
  shows "send_head E h = None"
  using assms by (simp add: send_head_def Let_def)

lemma send_head_outcome: "head_outcome E h (send_head E h)"
proof (cases "os_path_isdir (filesystem h) (translate_path E h (path h))")
  case False
  show ?thesis
    unfolding send_head_plain_file[OF False] by (rule send_head_file_outcome)
next
  case True
  show ?thesis
  proof (cases "urlsplit E (path h)")
    case None
    show ?thesis
      by (rule head_raisedI) (rule send_head_raises[OF True None])
  next
    case (Some parts)
    obtain scheme netloc ppath query fragment
      where u: "urlsplit E (path h) = Some (scheme, netloc, ppath, query, fragment)"
      using Some by (cases parts) simp
    show ?thesis
    proof (cases "suffix ''/'' ppath")
      case False
      show ?thesis
        by (rule head_respondedI[OF send_head_redirect[OF True u False]]) simp_all
    next
      case s: True
      let ?p = "translate_path E h (path h)"
      have e: "send_head E h =
                 (if os_path_isfile (filesystem h) (os_path_join ?p ''index.html'')
                  then send_head_file E h (os_path_join ?p ''index.html'')
                  else if os_path_isfile (filesystem h) (os_path_join ?p ''index.htm'')
                  then send_head_file E h (os_path_join ?p ''index.htm'')
                  else list_directory E h ?p)"
        using True u s by (simp add: send_head_def Let_def)
      show ?thesis
        unfolding e
        by (simp only: split: if_split)
           (intro conjI impI send_head_file_outcome list_directory_outcome)
    qed
  qed
qed

lemma copyfileobj_Nil: "copyfileobj [] = []"
  by (simp add: copyfileobj.simps[of "[]"])

lemma do_GET_outcome:
  "do_GET E h = None
   \<or> (\<exists>m. do_GET E h = Some (error_sent E h NOT_FOUND m (description NOT_FOUND)))
   \<or> (\<exists>code lines source. code \<in> {OK, MOVED_PERMANENTLY, NOT_MODIFIED} \<and> lines \<noteq> []
         \<and> hd lines = status_line code (phrase code)
         \<and> last lines = header_line ''Access-Control-Allow-Origin'' ''*''
         \<and> do_GET E h = Some (responded h code lines (copyfileobj source)))"
  using send_head_outcome[of E h]
proof (elim disjE exE conjE)
  assume "send_head E h = None"
  then have "do_GET E h = None"
    by (simp add: do_GET_def)
  then show ?thesis by (rule disjI1)
next
  fix m
  assume "send_head E h = Some (error_sent E h NOT_FOUND m (description NOT_FOUND), None)"
  then have "do_GET E h = Some (error_sent E h NOT_FOUND m (description NOT_FOUND))"
    by (simp add: do_GET_def)
  then show ?thesis by (intro disjI2 disjI1 exI)
next
  fix code lines f
  assume c: "code \<in> {OK, MOVED_PERMANENTLY, NOT_MODIFIED}" "lines \<noteq> []"
    "hd lines = status_line code (phrase code)"
    "last lines = header_line ''Access-Control-Allow-Origin'' ''*''"
    and s: "send_head E h = Some (responded h code lines [], f)"
  have "do_GET E h =
          Some (responded h code lines
                  (copyfileobj (case f of None \<Rightarrow> [] | Some source \<Rightarrow> source)))"
    using s by (cases f) (simp_all add: do_GET_def copyfile_responded copyfileobj_Nil)
  with c show ?thesis by (intro disjI2 exI conjI)
qed

lemma do_HEAD_outcome:
  "do_HEAD E h = None
   \<or> (\<exists>m. do_HEAD E h = Some (error_sent E h NOT_FOUND m (description NOT_FOUND)))
   \<or> (\<exists>code lines source. code \<in> {OK, MOVED_PERMANENTLY, NOT_MODIFIED} \<and> lines \<noteq> []
         \<and> hd lines = status_line code (phrase code)
         \<and> last lines = header_line ''Access-Control-Allow-Origin'' ''*''
         \<and> do_HEAD E h = Some (responded h code lines (copyfileobj source)))"
  using send_head_outcome[of E h]
proof (elim disjE exE conjE)
  assume "send_head E h = None"
  then have "do_HEAD E h = None"
    by (simp add: do_HEAD_def)
  then show ?thesis by (rule disjI1)
next
  fix m
  assume "send_head E h = Some (error_sent E h NOT_FOUND m (description NOT_FOUND), None)"
  then have "do_HEAD E h = Some (error_sent E h NOT_FOUND m (description NOT_FOUND))"
    by (simp add: do_HEAD_def)
  then show ?thesis by (intro disjI2 disjI1 exI)
next
  fix code lines f
  assume c: "code \<in> {OK, MOVED_PERMANENTLY, NOT_MODIFIED}" "lines \<noteq> []"
    "hd lines = status_line code (phrase code)"
    "last lines = header_line ''Access-Control-Allow-Origin'' ''*''"
    and s: "send_head E h = Some (responded h code lines [], f)"
  have "do_HEAD E h = Some (responded h code lines (copyfileobj []))"
    using s by (simp add: do_HEAD_def copyfileobj_Nil)
  with c show ?thesis by (intro disjI2 exI conjI)
qed

subsection \<open>Parsing a request\<close>

lemma protocol_version_below_1_1: "\<not> protocol_version \<ge> ''HTTP/1.1''"
  by (simp add: protocol_version_def)

lemma prepared_refl [simp]: "prepared h h"
  by (simp add: prepared_def)

lemma prepared_upd [simp]:
  "prepared h0 (h\<lparr>raw_requestline := a\<rparr>) = prepared h0 h"
  "prepared h0 (h\<lparr>requestline := b\<rparr>) = prepared h0 h"
  "prepared h0 (h\<lparr>command := c\<rparr>) = prepared h0 h"
  "prepared h0 (h\<lparr>path := d\<rparr>) = prepared h0 h"
  "prepared h0 (h\<lparr>request_version := e\<rparr>) = prepared h0 h"
  "prepared h0 (h\<lparr>close_connection := f\<rparr>) = prepared h0 h"
  "prepared h0 (h\<lparr>headers := g\<rparr>) = prepared h0 h"
  by (simp_all add: prepared_def)

lemma parse_silentI:
  "r = Some (hx, False) \<Longrightarrow> close_connection hx \<Longrightarrow> prepared h0 hx \<Longrightarrow>
   parse_outcome E h0 r"
  by blast

lemma parse_errorI:
  "r = Some (error_sent E hx code m e, False) \<Longrightarrow>
   code \<in> {BAD_REQUEST, HTTP_VERSION_NOT_SUPPORTED, REQUEST_HEADER_FIELDS_TOO_LARGE} \<Longrightarrow>
   prepared h0 hx \<Longrightarrow> parse_outcome E h0 r"
  by blast

lemma parse_okI:
  "r = Some (hx, True) \<Longrightarrow> command hx = Some cmd \<Longrightarrow> close_connection hx \<Longrightarrow>
   prepared h0 hx \<Longrightarrow> parse_outcome E h0 r"
  by blast

lemma parse_request_headers_Parsed:
  "parse_request_headers E h (Parsed hs) =
     Some (h\<lparr>headers := hs,
             close_connection :=
               (if lower (headers_get hs ''Connection'' []) = ''close'' then True
                else close_connection h)\<rparr>, True)"
  by (simp add: parse_request_headers_def Let_def protocol_version_below_1_1)

lemma parse_request_headers_outcome:
  assumes "prepared h0 h" and "command h = Some cmd" and "close_connection h"
  shows "parse_outcome E h0 (parse_request_headers E h hp)"
proof (cases hp)
  case (Parsed hs)
  show ?thesis
    unfolding Parsed parse_request_headers_Parsed
    by (rule parse_okI[OF refl, where cmd = cmd]) (simp_all add: assms)
next
  case (LineTooLong err)
  show ?thesis
    unfolding LineTooLong
    by (rule parse_errorI[where hx = h and code = REQUEST_HEADER_FIELDS_TOO_LARGE])
       (simp_all add: parse_request_headers_def send_error_eq assms)
next
  case (HTTPException err)
  show ?thesis
    unfolding HTTPException
    by (rule parse_errorI[where hx = h and code = REQUEST_HEADER_FIELDS_TOO_LARGE])
       (simp_all add: parse_request_headers_def send_error_eq assms)
qed

lemma parse_request_words_outcome:
  assumes "prepared h0 h" and "close_connection h"
  shows "parse_outcome E h0 (parse_request_words E h ws hp)"
proof (cases "2 \<le> length ws \<and> length ws \<le> 3")
  case False
  show ?thesis
    by (rule parse_errorI[where hx = h and code = BAD_REQUEST])
       (use False in \<open>simp_all add: parse_request_words_def send_error_eq assms\<close>)
next
  case True
  show ?thesis
  proof (cases "length ws = 2 \<and> ws ! 0 \<noteq> ''GET''")
    case t: True
    show ?thesis
      by (rule parse_errorI[where hx = "h\<lparr>close_connection := True\<rparr>" and code = BAD_REQUEST])
         (use True t in \<open>simp_all add: parse_request_words_def send_error_eq assms Let_def\<close>)
  next
    case False
    let ?h1 = "if length ws = 2 then h\<lparr>close_connection := True\<rparr> else h"
    let ?h3 = "?h1\<lparr>command := Some (ws ! 0),
                   path := (if prefix ''//'' (ws ! 1) then ''/'' @ lstrip_chars ''/'' (ws ! 1)
                            else ws ! 1)\<rparr>"
    have e: "parse_request_words E h ws hp = parse_request_headers E ?h3 hp"
    proof (cases "length ws = 2")
      case l: True
      with False have "ws ! 0 = ''GET''" by simp
      with l show ?thesis by (simp add: parse_request_words_def Let_def)
    next
      case l: False
      with True show ?thesis by (simp add: parse_request_words_def Let_def)
    qed
    have p: "prepared h0 ?h3" using assms by simp
    have c: "command ?h3 = Some (ws ! 0)" by simp
    have k: "close_connection ?h3" using assms by simp
    show ?thesis
      unfolding e by (rule parse_request_headers_outcome[OF p c k])
  qed
qed

lemma parse_request_outcome:
  assumes "prepared h0 h"
  shows "parse_outcome E h0 (parse_request E h hp)"
proof -
  let ?h2 = "h\<lparr>command := None, request_version := default_request_version,
               close_connection := True,
               requestline := rstrip_chars [CR, LF] (raw_requestline h)\<rparr>"
  let ?ws = "split_ws (rstrip_chars [CR, LF] (raw_requestline h))"
  have p2: "prepared h0 ?h2" using assms by simp
  have k2: "close_connection ?h2" by simp
  show ?thesis
  proof (cases "length ?ws = 0")
    case True
    show ?thesis
      by (rule parse_silentI[where hx = ?h2]) (use True p2 in \<open>simp_all add: parse_request_def Let_def\<close>)
  next
    case n0: False
    show ?thesis
    proof (cases "length ?ws \<ge> 3")
      case False
      have "parse_request E h hp = parse_request_words E ?h2 ?ws hp"
        using n0 False by (simp add: parse_request_def Let_def)
      then show ?thesis
        using parse_request_words_outcome[OF p2 k2] by simp
    next
      case True
      show ?thesis
      proof (cases "parse_version (last ?ws)")
        case None
        show ?thesis
          by (rule parse_errorI[where hx = ?h2 and code = BAD_REQUEST])
             (use n0 True None p2 in \<open>simp_all add: parse_request_def Let_def send_error_eq\<close>)
      next
        case (Some vn)
        show ?thesis
        proof (cases "version_ge vn (2, 0)")
          case t: True
          show ?thesis
            by (rule parse_errorI[where hx = ?h2 and code = HTTP_VERSION_NOT_SUPPORTED])
               (use n0 True Some t p2 in
                 \<open>simp_all add: parse_request_def Let_def send_error_eq protocol_version_below_1_1\<close>)
        next
          case False
          have "parse_request E h hp =
                  parse_request_words E (?h2\<lparr>request_version := last ?ws\<rparr>) ?ws hp"
            using n0 True Some False
            by (simp add: parse_request_def Let_def protocol_version_below_1_1)
          moreover have "prepared h0 (?h2\<lparr>request_version := last ?ws\<rparr>)"
            using assms by simp
          moreover have "close_connection (?h2\<lparr>request_version := last ?ws\<rparr>)"
            by simp
          ultimately show ?thesis
            using parse_request_words_outcome by simp
        qed
      qed
    qed
  qed
qed

subsection \<open>Handling a request\<close>

lemma request_raisedI: "r = None \<Longrightarrow> request_outcome E h0 r"
  using prepared_refl by blast

lemma request_silentI:
  "r = Some hx \<Longrightarrow> close_connection hx \<Longrightarrow> prepared h0 hx \<Longrightarrow>
   request_outcome E h0 r"
  by blast

lemma request_errorI:
  "r = Some (error_sent E hx code m e) \<Longrightarrow>
   code \<in> {BAD_REQUEST, NOT_FOUND, REQUEST_URI_TOO_LONG, REQUEST_HEADER_FIELDS_TOO_LARGE,
            NOT_IMPLEMENTED, HTTP_VERSION_NOT_SUPPORTED} \<Longrightarrow>
   prepared h0 hx \<Longrightarrow> request_outcome E h0 r"
  by blast

lemma request_respondedI:
  "r = Some (responded hx code lines (copyfileobj source)) \<Longrightarrow>
   code \<in> {OK, MOVED_PERMANENTLY, NOT_MODIFIED} \<Longrightarrow> lines \<noteq> [] \<Longrightarrow>
   hd lines = status_line code (phrase code) \<Longrightarrow>
   last lines = header_line ''Access-Control-Allow-Origin'' ''*'' \<Longrightarrow>
   close_connection hx \<Longrightarrow> prepared h0 hx \<Longrightarrow> request_outcome E h0 r"
  by blast

lemma do_GET_request_outcome:
  assumes "prepared h0 hx" and "close_connection hx"
  shows "request_outcome E h0 (do_GET E hx)"
  using do_GET_outcome[of E hx]
proof (elim disjE exE conjE)
  assume "do_GET E hx = None"
  then show ?thesis
    by (rule request_raisedI)
next
  fix m
  assume "do_GET E hx = Some (error_sent E hx NOT_FOUND m (description NOT_FOUND))"
  then show ?thesis
    by (rule request_errorI) (simp_all add: assms)
next
  fix code lines source
  assume "code \<in> {OK, MOVED_PERMANENTLY, NOT_MODIFIED}" "lines \<noteq> []"
    "hd lines = status_line code (phrase code)"
    "last lines = header_line ''Access-Control-Allow-Origin'' ''*''"
    "do_GET E hx = Some (responded hx code lines (copyfileobj source))"
  then show ?thesis
    using assms by (intro request_respondedI)
qed

lemma do_HEAD_request_outcome:
  assumes "prepared h0 hx" and "close_connection hx"
  shows "request_outcome E h0 (do_HEAD E hx)"
  using do_HEAD_outcome[of E hx]
proof (elim disjE exE conjE)
  assume "do_HEAD E hx = None"
  then show ?thesis
    by (rule request_raisedI)
next
  fix m
  assume "do_HEAD E hx = Some (error_sent E hx NOT_FOUND m (description NOT_FOUND))"
  then show ?thesis
    by (rule request_errorI) (simp_all add: assms)
next
  fix code lines source
  assume "code \<in> {OK, MOVED_PERMANENTLY, NOT_MODIFIED}" "lines \<noteq> []"
    "hd lines = status_line code (phrase code)"
    "last lines = header_line ''Access-Control-Allow-Origin'' ''*''"
    "do_HEAD E hx = Some (responded hx code lines (copyfileobj source))"
  then show ?thesis
    using assms by (intro request_respondedI)
qed

lemma dispatch_outcome:
  assumes "prepared h0 hx" and "command hx = Some cmd" and "close_connection hx"
  shows "request_outcome E h0
           (case command hx of
              None \<Rightarrow> None
            | Some cmd \<Rightarrow>
                if cmd = ''GET'' then do_GET E hx
                else if cmd = ''HEAD'' then do_HEAD E hx
                else send_error E hx NOT_IMPLEMENTED
                       (Some (''Unsupported method ('' @ repr E cmd @ '')'')) None)"
proof (cases "cmd = ''GET''")
  case True
  then show ?thesis
    using assms(2) do_GET_request_outcome[OF assms(1) assms(3)] by simp
next
  case g: False
  show ?thesis
  proof (cases "cmd = ''HEAD''")
    case True
    then show ?thesis
      using assms(2) do_HEAD_request_outcome[OF assms(1) assms(3)] by simp
  next
    case False
    show ?thesis
      by (rule request_errorI[where hx = hx and code = NOT_IMPLEMENTED])
         (use g False assms in \<open>simp_all add: send_error_eq\<close>)
  qed
qed

lemma handle_one_request_outcome:
  "request_outcome E h (handle_one_request E h req)"
proof -
  let ?h1 = "h\<lparr>raw_requestline := readline 65537 (rfile req)\<rparr>"
  have p1: "prepared h ?h1" by simp
  show ?thesis
  proof (cases "length (readline 65537 (rfile req)) > 65536")
    case True
    show ?thesis
      by (rule request_errorI[where code = REQUEST_URI_TOO_LONG
            and hx = "?h1\<lparr>requestline := [], request_version := [], command := Some []\<rparr>"])
         (use True in \<open>simp_all add: handle_one_request_def Let_def send_error_eq\<close>)
  next
    case short: False
    show ?thesis
    proof (cases "readline 65537 (rfile req) = []")
      case True
      show ?thesis
        by (rule request_silentI[where hx = "?h1\<lparr>close_connection := True\<rparr>"])
           (use True in \<open>simp_all add: handle_one_request_def Let_def\<close>)
    next
      case False
      have e: "handle_one_request E h req =
                 do {
                   (h2, ok) \<leftarrow> parse_request E ?h1 (header_lines req);
                   if \<not> ok then Some h2
                   else (case command h2 of
                           None \<Rightarrow> None
                         | Some cmd \<Rightarrow>
                             if cmd = ''GET'' then do_GET E h2
                             else if cmd = ''HEAD'' then do_HEAD E h2
                             else send_error E h2 NOT_IMPLEMENTED
                                    (Some (''Unsupported method ('' @ repr E cmd @ '')'')) None)
                 }"
        using short False by (simp add: handle_one_request_def Let_def)
      from parse_request_outcome[OF p1, of E "header_lines req"]
      obtain hx where px: "prepared h hx"
        and c: "close_connection hx \<and> parse_request E ?h1 (header_lines req) = Some (hx, False)
           \<or> (\<exists>code m e. code \<in> {BAD_REQUEST, HTTP_VERSION_NOT_SUPPORTED,
                                     REQUEST_HEADER_FIELDS_TOO_LARGE}
                  \<and> parse_request E ?h1 (header_lines req) = Some (error_sent E hx code m e, False))
           \<or> (\<exists>cmd. command hx = Some cmd \<and> close_connection hx
                  \<and> parse_request E ?h1 (header_lines req) = Some (hx, True))"
        by blast
      from c show ?thesis
      proof (elim disjE exE conjE)
        assume cl: "close_connection hx"
          and "parse_request E ?h1 (header_lines req) = Some (hx, False)"
        then have "handle_one_request E h req = Some hx"
          unfolding e by simp
        then show ?thesis
          by (rule request_silentI) (rule cl, rule px)
      next
        fix code m ex
        assume k: "code \<in> {BAD_REQUEST, HTTP_VERSION_NOT_SUPPORTED,
                            REQUEST_HEADER_FIELDS_TOO_LARGE}"
          and "parse_request E ?h1 (header_lines req) = Some (error_sent E hx code m ex, False)"
        then have "handle_one_request E h req = Some (error_sent E hx code m ex)"
          unfolding e by simp
        then show ?thesis
          by (rule request_errorI) (use k px in auto)
      next
        fix cmd
        assume k: "command hx = Some cmd" and cl: "close_connection hx"
          and "parse_request E ?h1 (header_lines req) = Some (hx, True)"
        then have "handle_one_request E h req =
                     (case command hx of
                        None \<Rightarrow> None
                      | Some cmd \<Rightarrow>
                          if cmd = ''GET'' then do_GET E hx
                          else if cmd = ''HEAD'' then do_HEAD E hx
                          else send_error E hx NOT_IMPLEMENTED
                                 (Some (''Unsupported method ('' @ repr E cmd @ '')'')) None)"
          unfolding e by simp
        then show ?thesis
          using dispatch_outcome[OF px k cl, of E] by simp
      qed
    qed
  qed
qed

subsection \<open>What a request leaves behind\<close>

lemma error_sent_fields:
  "stdout (error_sent E hx code m e) = stdout hx @ [error_log hx code m, request_log hx code]"
  "stderr (error_sent E hx code m e) = stderr hx"
  "extensions_map (error_sent E hx code m e) = extensions_map hx"
  "filesystem (error_sent E hx code m e) = filesystem hx"
  "cwd (error_sent E hx code m e) = cwd hx"
  "directory (error_sent E hx code m e) = directory hx"
  "client_address (error_sent E hx code m e) = client_address hx"
  "requestline (error_sent E hx code m e) = requestline hx"
  "request_version (error_sent E hx code m e) = request_version hx"
  "command (error_sent E hx code m e) = command hx"
  "close_connection (error_sent E hx code m e) = True"
  "wfile (error_sent E hx code m e) =
     wfile hx @ sent_head hx (error_headers E code m e)
       @ (if command hx \<noteq> Some ''HEAD'' then [error_body code m e] else [])"
  by (simp_all add: error_sent_def)

lemma responded_fields:
  "stdout (responded hx code lines body) = stdout hx @ [request_log hx code]"
  "stderr (responded hx code lines body) = stderr hx"
  "extensions_map (responded hx code lines body) = extensions_map hx"
  "filesystem (responded hx code lines body) = filesystem hx"
  "cwd (responded hx code lines body) = cwd hx"
  "directory (responded hx code lines body) = directory hx"
  "client_address (responded hx code lines body) = client_address hx"
  "requestline (responded hx code lines body) = requestline hx"
  "request_version (responded hx code lines body) = request_version hx"
  "command (responded hx code lines body) = command hx"
  "close_connection (responded hx code lines body) = close_connection hx"
  "wfile (responded hx code lines body) = wfile hx @ sent_head hx lines @ body"
  by (simp_all add: responded_def)

lemma log_same_request:
  "client_address h' = client_address hx \<Longrightarrow> requestline h' = requestline hx \<Longrightarrow>
   request_log h' code = request_log hx code \<and> error_log h' code m = error_log hx code m"
  by (simp add: request_log_def error_log_def)

lemma sent_head_fresh:
  "headers_buffer hx = None \<Longrightarrow>
   sent_head hx lines = (if request_version hx \<noteq> ''HTTP/0.9'' then [header_block lines] else [])"
  by (simp add: sent_head_def buffered_def)

lemma handle_one_request_frame:
  "handle_one_request E h req = None
   \<or> (\<exists>h'. handle_one_request E h req = Some h' \<and> stderr h' = stderr h
        \<and> extensions_map h' = extensions_map h \<and> filesystem h' = filesystem h
        \<and> cwd h' = cwd h \<and> directory h' = directory h
        \<and> client_address h' = client_address h \<and> close_connection h'
        \<and> prefix (stdout h) (stdout h') \<and> prefix (wfile h) (wfile h'))"
proof -
  from handle_one_request_outcome[where E = E and h = h and req = req]
  obtain hx where p: "prepared h hx"
    and c: "handle_one_request E h req = None
      \<or> close_connection hx \<and> handle_one_request E h req = Some hx
      \<or> (\<exists>code m e. handle_one_request E h req = Some (error_sent E hx code m e))
      \<or> (\<exists>code lines source. close_connection hx \<and>
            handle_one_request E h req = Some (responded hx code lines (copyfileobj source)))"
    by blast
  from c show ?thesis
  proof (elim disjE exE conjE)
    assume "handle_one_request E h req = None"
    then show ?thesis by (rule disjI1)
  next
    assume "close_connection hx" "handle_one_request E h req = Some hx"
    with p show ?thesis by (simp add: prepared_def)
  next
    fix code m e
    assume "handle_one_request E h req = Some (error_sent E hx code m e)"
    with p show ?thesis by (simp add: prepared_def error_sent_fields)
  next
    fix code lines source
    assume "close_connection hx"
      "handle_one_request E h req = Some (responded hx code lines (copyfileobj source))"
    with p show ?thesis by (simp add: prepared_def responded_fields)
  qed
qed

lemma response_shape:
  assumes "headers_buffer h = None"
  shows "handle_one_request E h req = None \<or>
   (\<exists>h'. handle_one_request E h req = Some h' \<and> stderr h' = stderr h
      \<and> client_address h' = client_address h \<and>
     ((stdout h' = stdout h \<and> wfile h' = wfile h)
      \<or> (\<exists>code m e.
            code \<in> {BAD_REQUEST, NOT_FOUND, REQUEST_URI_TOO_LONG,
                     REQUEST_HEADER_FIELDS_TOO_LARGE, NOT_IMPLEMENTED,
                     HTTP_VERSION_NOT_SUPPORTED}
            \<and> stdout h' = stdout h @ [error_log h' code m, request_log h' code]
            \<and> wfile h' =
                wfile h
                @ (if request_version h' \<noteq> ''HTTP/0.9''
                   then [header_block (error_headers E code m e)] else [])
                @ (if command h' \<noteq> Some ''HEAD'' then [error_body code m e] else []))
      \<or> (\<exists>code lines source.
            code \<in> {OK, MOVED_PERMANENTLY, NOT_MODIFIED} \<and> lines \<noteq> []
            \<and> hd lines = status_line code (phrase code)
            \<and> last lines = header_line ''Access-Control-Allow-Origin'' ''*''
            \<and> stdout h' = stdout h @ [request_log h' code]
            \<and> wfile h' =
                wfile h
                @ (if request_version h' \<noteq> ''HTTP/0.9'' then [header_block lines] else [])
                @ copyfileobj source)))"
proof -
  from handle_one_request_outcome[where E = E and h = h and req = req]
  obtain hx where p: "prepared h hx"
    and c: "handle_one_request E h req = None
      \<or> handle_one_request E h req = Some hx
      \<or> (\<exists>code m e. code \<in> {BAD_REQUEST, NOT_FOUND, REQUEST_URI_TOO_LONG,
                                REQUEST_HEADER_FIELDS_TOO_LARGE, NOT_IMPLEMENTED,
                                HTTP_VERSION_NOT_SUPPORTED}
             \<and> handle_one_request E h req = Some (error_sent E hx code m e))
      \<or> (\<exists>code lines source. code \<in> {OK, MOVED_PERMANENTLY, NOT_MODIFIED}
             \<and> lines \<noteq> [] \<and> hd lines = status_line code (phrase code)
             \<and> last lines = header_line ''Access-Control-Allow-Origin'' ''*''
             \<and> handle_one_request E h req = Some (responded hx code lines (copyfileobj source)))"
    by blast
  from p assms have b: "headers_buffer hx = None" by (simp add: prepared_def)
  from c show ?thesis
  proof (elim disjE exE conjE)
    assume "handle_one_request E h req = None"
    then show ?thesis by (rule disjI1)
  next
    assume "handle_one_request E h req = Some hx"
    with p show ?thesis by (simp add: prepared_def)
  next
    fix code m e
    assume k: "code \<in> {BAD_REQUEST, NOT_FOUND, REQUEST_URI_TOO_LONG,
                        REQUEST_HEADER_FIELDS_TOO_LARGE, NOT_IMPLEMENTED,
                        HTTP_VERSION_NOT_SUPPORTED}"
      and r: "handle_one_request E h req = Some (error_sent E hx code m e)"
    let ?h' = "error_sent E hx code m e"
    have l: "request_log ?h' code = request_log hx code"
      "error_log ?h' code m = error_log hx code m"
      by (simp_all add: request_log_def error_log_def error_sent_fields)
    have "stderr ?h' = stderr h" "client_address ?h' = client_address h"
      "stdout ?h' = stdout h @ [error_log ?h' code m, request_log ?h' code]"
      "wfile ?h' =
         wfile h
         @ (if request_version ?h' \<noteq> ''HTTP/0.9''
            then [header_block (error_headers E code m e)] else [])
         @ (if command ?h' \<noteq> Some ''HEAD'' then [error_body code m e] else [])"
      using p by (simp_all only: l error_sent_fields sent_head_fresh[OF b]) (simp_all add: prepared_def)
    with k r show ?thesis by blast
  next
    fix code lines source
    assume k: "code \<in> {OK, MOVED_PERMANENTLY, NOT_MODIFIED}" "lines \<noteq> []"
      "hd lines = status_line code (phrase code)"
      "last lines = header_line ''Access-Control-Allow-Origin'' ''*''"
      and r: "handle_one_request E h req = Some (responded hx code lines (copyfileobj source))"
    let ?h' = "responded hx code lines (copyfileobj source)"
    have l: "request_log ?h' code = request_log hx code"
      by (simp add: request_log_def responded_fields)
    have "stderr ?h' = stderr h" "client_address ?h' = client_address h"
      "stdout ?h' = stdout h @ [request_log ?h' code]"
      "wfile ?h' =
         wfile h
         @ (if request_version ?h' \<noteq> ''HTTP/0.9'' then [header_block lines] else [])
         @ copyfileobj source"
      using p by (simp_all only: l responded_fields sent_head_fresh[OF b]) (simp_all add: prepared_def)
    with k r show ?thesis by blast
  qed
qed

subsection \<open>A well-formed request\<close>

lemma accepted_fields [simp]:
  "stdout (accepted h line cmd p version hs) = stdout h"
  "stderr (accepted h line cmd p version hs) = stderr h"
  "extensions_map (accepted h line cmd p version hs) = extensions_map h"
  "filesystem (accepted h line cmd p version hs) = filesystem h"
  "cwd (accepted h line cmd p version hs) = cwd h"
  "directory (accepted h line cmd p version hs) = directory h"
  "client_address (accepted h line cmd p version hs) = client_address h"
  "headers_buffer (accepted h line cmd p version hs) = headers_buffer h"
  "wfile (accepted h line cmd p version hs) = wfile h"
  "requestline (accepted h line cmd p version hs) = rstrip_chars [CR, LF] line"
  "command (accepted h line cmd p version hs) = Some cmd"
  "request_version (accepted h line cmd p version hs) = version"
  "headers (accepted h line cmd p version hs) = hs"
  "close_connection (accepted h line cmd p version hs)"
  "path (accepted h line cmd p version hs) =
     (if prefix ''//'' p then ''/'' @ lstrip_chars ''/'' p else p)"
  by (simp_all add: accepted_def)

lemma parse_request_accepts:
  assumes "split_ws (rstrip_chars [CR, LF] (raw_requestline h)) = [cmd, p, version]"
    and "parse_version version = Some vn" and "\<not> version_ge vn (2, 0)"
  shows "parse_request E h (Parsed hs) =
           Some (accepted h (raw_requestline h) cmd p version hs, True)"
  using assms
  by (simp add: parse_request_def Let_def protocol_version_below_1_1 parse_request_words_def
        parse_request_headers_Parsed accepted_def)

lemma split_ws_Nil: "split_ws (rstrip_chars cs []) = []"
  by (simp add: split_ws_def rstrip_chars_def)

lemma handle_one_request_accepts:
  assumes "request_words req = [cmd, p, version]"
    and "length (readline 65537 (rfile req)) \<le> 65536"
    and "parse_version version = Some vn" and "\<not> version_ge vn (2, 0)"
    and "header_lines req = Parsed hs"
  shows "handle_one_request E h req =
           (if cmd = ''GET''
            then do_GET E (accepted h (readline 65537 (rfile req)) cmd p version hs)
            else if cmd = ''HEAD''
            then do_HEAD E (accepted h (readline 65537 (rfile req)) cmd p version hs)
            else send_error E (accepted h (readline 65537 (rfile req)) cmd p version hs)
                   NOT_IMPLEMENTED (Some (''Unsupported method ('' @ repr E cmd @ '')'')) None)"
proof -
  let ?line = "readline 65537 (rfile req)"
  let ?h1 = "h\<lparr>raw_requestline := ?line\<rparr>"
  have ne: "?line \<noteq> []"
    using assms(1) by (auto simp: request_words_def split_ws_Nil)
  have w: "split_ws (rstrip_chars [CR, LF] (raw_requestline ?h1)) = [cmd, p, version]"
    using assms(1) by (simp add: request_words_def)
  have a: "accepted ?h1 (raw_requestline ?h1) cmd p version hs = accepted h ?line cmd p version hs"
    by (simp add: accepted_def)
  have p: "parse_request E ?h1 (header_lines req) =
             Some (accepted h ?line cmd p version hs, True)"
    using parse_request_accepts[OF w assms(3) assms(4), of E hs] a assms(5) by simp
  show ?thesis
    using ne assms(2) by (simp add: handle_one_request_def Let_def p)
qed

lemma handle_one_request_get:
  assumes "request_words req = [''GET'', p, version]"
    and "length (readline 65537 (rfile req)) \<le> 65536"
    and "parse_version version = Some vn" and "\<not> version_ge vn (2, 0)"
    and "header_lines req = Parsed hs"
  shows "handle_one_request E h req =
           do_GET E (accepted h (readline 65537 (rfile req)) ''GET'' p version hs)"
  by (simp add: handle_one_request_accepts[OF assms])

lemma handle_one_request_head:
  assumes "request_words req = [''HEAD'', p, version]"
    and "length (readline 65537 (rfile req)) \<le> 65536"
    and "parse_version version = Some vn" and "\<not> version_ge vn (2, 0)"
    and "header_lines req = Parsed hs"
  shows "handle_one_request E h req =
           do_HEAD E (accepted h (readline 65537 (rfile req)) ''HEAD'' p version hs)"
  by (simp add: handle_one_request_accepts[OF assms])

lemma translate_path_directory:
  "directory h' = directory h \<Longrightarrow> translate_path E h' p = translate_path E h p"
  by (simp add: translate_path_def)

lemma guess_type_extensions_map:
  "extensions_map h' = extensions_map h \<Longrightarrow> guess_type E h' p = guess_type E h p"
  by (simp add: guess_type_def Let_def split: option.splits)

lemma not_modified_since_headers:
  "headers h' = headers h \<Longrightarrow> not_modified_since E h' t = not_modified_since E h t"
  by (simp add: not_modified_since_def)

lemma send_head_file_found:
  assumes "open_rb (filesystem h) (translate_path E h (path h)) = Opened f mtime"
    and "\<not> not_modified_since E h mtime"
  shows "send_head E h =
           Some (responded h OK
                   (file_headers E (guess_type E h (translate_path E h (path h))) (length f) mtime)
                   [], Some f)"
  using send_head_plain_file[OF open_rb_not_dir[OF assms(1)]]
    send_head_file_ok[OF assms] by simp

lemma send_head_unchanged_file:
  assumes "open_rb (filesystem h) (translate_path E h (path h)) = Opened f mtime"
    and "not_modified_since E h mtime"
  shows "send_head E h = Some (responded h NOT_MODIFIED (not_modified_headers E) [], None)"
  using send_head_plain_file[OF open_rb_not_dir[OF assms(1)]]
    send_head_file_not_modified[OF assms] by simp

lemma send_head_missing:
  assumes "open_rb (filesystem h) (translate_path E h (path h)) = Raised_OSError"
    and "\<not> os_path_isdir (filesystem h) (translate_path E h (path h))"
  shows "send_head E h =
           Some (error_sent E h NOT_FOUND ''File not found'' (description NOT_FOUND), None)"
  using send_head_plain_file[OF assms(2)] send_head_file_not_found[OF disjI2, OF assms(1)]
  by simp

lemma send_head_null_byte:
  assumes "open_rb (filesystem h) (translate_path E h (path h)) = Raised_ValueError"
    and "\<not> suffix ''/'' (translate_path E h (path h))"
    and "\<not> os_path_isdir (filesystem h) (translate_path E h (path h))"
  shows "send_head E h = None"
  using send_head_plain_file[OF assms(3)] send_head_file_raises[OF assms(2) assms(1)]
  by simp

lemma do_GET_file:
  assumes "open_rb (filesystem h) (translate_path E h (path h)) = Opened f mtime"
    and "\<not> not_modified_since E h mtime"
  shows "do_GET E h =
           Some (responded h OK
                   (file_headers E (guess_type E h (translate_path E h (path h))) (length f) mtime)
                   (copyfileobj f))"
  by (simp add: do_GET_def send_head_file_found[OF assms] copyfile_responded)

lemma do_GET_unchanged_file:
  assumes "open_rb (filesystem h) (translate_path E h (path h)) = Opened f mtime"
    and "not_modified_since E h mtime"
  shows "do_GET E h = Some (responded h NOT_MODIFIED (not_modified_headers E) [])"
  by (simp add: do_GET_def send_head_unchanged_file[OF assms])

lemma do_GET_missing:
  assumes "open_rb (filesystem h) (translate_path E h (path h)) = Raised_OSError"
    and "\<not> os_path_isdir (filesystem h) (translate_path E h (path h))"
  shows "do_GET E h = Some (error_sent E h NOT_FOUND ''File not found'' (description NOT_FOUND))"
  by (simp add: do_GET_def send_head_missing[OF assms])

lemma do_HEAD_missing:
  assumes "open_rb (filesystem h) (translate_path E h (path h)) = Raised_OSError"
    and "\<not> os_path_isdir (filesystem h) (translate_path E h (path h))"
  shows "do_HEAD E h = Some (error_sent E h NOT_FOUND ''File not found'' (description NOT_FOUND))"
  by (simp add: do_HEAD_def send_head_missing[OF assms])

lemma do_GET_null_byte:
  assumes "open_rb (filesystem h) (translate_path E h (path h)) = Raised_ValueError"
    and "\<not> suffix ''/'' (translate_path E h (path h))"
    and "\<not> os_path_isdir (filesystem h) (translate_path E h (path h))"
  shows "do_GET E h = None"
  by (simp add: do_GET_def send_head_null_byte[OF assms])

lemma handle_one_request_version_rejected:
  assumes "request_words req = ws" and "3 \<le> length ws"
    and "length (readline 65537 (rfile req)) \<le> 65536"
    and "parse_version (last ws) = Some vn" and "version_ge vn (2, 0)"
  shows "handle_one_request E h req =
           Some (error_sent E
                   (h\<lparr>raw_requestline := readline 65537 (rfile req), command := None,
                      request_version := default_request_version, close_connection := True,
                      requestline := rstrip_chars [CR, LF] (readline 65537 (rfile req))\<rparr>)
                   HTTP_VERSION_NOT_SUPPORTED
                   (''Invalid HTTP version (''
                      @ drop 1 (dropWhile (\<lambda>c. c \<noteq> CHR ''/'') (last ws)) @ '')'')
                   (description HTTP_VERSION_NOT_SUPPORTED))"
proof -
  let ?line = "readline 65537 (rfile req)"
  let ?h1 = "h\<lparr>raw_requestline := ?line\<rparr>"
  have ne: "?line \<noteq> []"
    using assms(1) assms(2) by (auto simp: request_words_def split_ws_Nil)
  have w: "split_ws (rstrip_chars [CR, LF] ?line) = ws"
    using assms(1) by (simp add: request_words_def)
  have wne: "ws \<noteq> []"
    using assms(2) by auto
  have p: "parse_request E ?h1 hp =
             Some (error_sent E
                     (h\<lparr>raw_requestline := ?line, command := None,
                        request_version := default_request_version, close_connection := True,
                        requestline := rstrip_chars [CR, LF] ?line\<rparr>)
                     HTTP_VERSION_NOT_SUPPORTED
                     (''Invalid HTTP version (''
                        @ drop 1 (dropWhile (\<lambda>c. c \<noteq> CHR ''/'') (last ws)) @ '')'')
                     (description HTTP_VERSION_NOT_SUPPORTED), False)" for hp
    using assms(2) assms(4) assms(5) wne
    by (simp add: parse_request_def Let_def w protocol_version_below_1_1 send_error_eq)
  show ?thesis
    using ne assms(3) by (simp add: handle_one_request_def Let_def p)
qed

lemma accepted_path [simp]:
  "\<not> prefix ''//'' p \<Longrightarrow> path (accepted h line cmd p version hs) = p"
  by simp

lemma file_request:
  assumes "request_words req = [''GET'', p, version]"
    and "length (readline 65537 (rfile req)) \<le> 65536"
    and "parse_version version = Some vn" and "\<not> version_ge vn (2, 0)"
    and "header_lines req = Parsed hs" and "\<not> prefix ''//'' p"
    and "open_rb (filesystem h) (translate_path E h p) = Opened bytes mtime"
    and "\<not> not_modified_since E (h\<lparr>headers := hs\<rparr>) mtime"
  shows "handle_one_request E h req =
           Some (responded (accepted h (readline 65537 (rfile req)) ''GET'' p version hs) OK
                   (file_headers E (guess_type E h (translate_path E h p)) (length bytes) mtime)
                   (copyfileobj bytes))"
proof -
  let ?hx = "accepted h (readline 65537 (rfile req)) ''GET'' p version hs"
  have t: "translate_path E ?hx (path ?hx) = translate_path E h p"
    using assms(6) translate_path_directory[of ?hx h E] by simp
  have o: "open_rb (filesystem ?hx) (translate_path E ?hx (path ?hx)) = Opened bytes mtime"
    using assms(7) t by simp
  have n: "\<not> not_modified_since E ?hx mtime"
    using assms(8) not_modified_since_headers[of ?hx "h\<lparr>headers := hs\<rparr>" E mtime] by simp
  have g: "guess_type E ?hx (translate_path E h p) = guess_type E h (translate_path E h p)"
    using guess_type_extensions_map[of ?hx h E] by simp
  have "do_GET E ?hx =
          Some (responded ?hx OK
                  (file_headers E (guess_type E ?hx (translate_path E ?hx (path ?hx)))
                     (length bytes) mtime)
                  (copyfileobj bytes))"
    by (rule do_GET_file[OF o n])
  then have "do_GET E ?hx =
          Some (responded ?hx OK
                  (file_headers E (guess_type E h (translate_path E h p)) (length bytes) mtime)
                  (copyfileobj bytes))"
    by (simp only: t g)
  then show ?thesis
    by (simp only: handle_one_request_get[OF assms(1-5)])
qed

lemma unchanged_file_request:
  assumes "request_words req = [''GET'', p, version]"
    and "length (readline 65537 (rfile req)) \<le> 65536"
    and "parse_version version = Some vn" and "\<not> version_ge vn (2, 0)"
    and "header_lines req = Parsed hs" and "\<not> prefix ''//'' p"
    and "open_rb (filesystem h) (translate_path E h p) = Opened bytes mtime"
    and "not_modified_since E (h\<lparr>headers := hs\<rparr>) mtime"
  shows "handle_one_request E h req =
           Some (responded (accepted h (readline 65537 (rfile req)) ''GET'' p version hs)
                   NOT_MODIFIED (not_modified_headers E) [])"
proof -
  let ?hx = "accepted h (readline 65537 (rfile req)) ''GET'' p version hs"
  have t: "translate_path E ?hx (path ?hx) = translate_path E h p"
    using assms(6) translate_path_directory[of ?hx h E] by simp
  have o: "open_rb (filesystem ?hx) (translate_path E ?hx (path ?hx)) = Opened bytes mtime"
    using assms(7) t by simp
  have n: "not_modified_since E ?hx mtime"
    using assms(8) not_modified_since_headers[of ?hx "h\<lparr>headers := hs\<rparr>" E mtime] by simp
  show ?thesis
    using do_GET_unchanged_file[OF o n]
    by (simp only: handle_one_request_get[OF assms(1-5)])
qed

lemma open_rb_missing:
  "CHR 0x00 \<notin> set q \<Longrightarrow> os_stat fs q = None \<Longrightarrow> open_rb fs q = Raised_OSError"
  by (simp add: open_rb_def)

lemma os_stat_not_dir: "os_stat fs q = None \<Longrightarrow> \<not> os_path_isdir fs q"
  by (simp add: os_path_isdir_def)

lemma missing_request:
  assumes "request_words req = [cmd, p, version]" and "cmd = ''GET'' \<or> cmd = ''HEAD''"
    and "length (readline 65537 (rfile req)) \<le> 65536"
    and "parse_version version = Some vn" and "\<not> version_ge vn (2, 0)"
    and "header_lines req = Parsed hs" and "\<not> prefix ''//'' p"
    and "CHR 0x00 \<notin> set (translate_path E h p)"
    and "os_stat (filesystem h) (translate_path E h p) = None"
  shows "handle_one_request E h req =
           Some (error_sent E (accepted h (readline 65537 (rfile req)) cmd p version hs)
                   NOT_FOUND ''File not found'' (description NOT_FOUND))"
proof -
  let ?hx = "accepted h (readline 65537 (rfile req)) cmd p version hs"
  have t: "translate_path E ?hx (path ?hx) = translate_path E h p"
    using assms(7) translate_path_directory[of ?hx h E] by simp
  have o: "open_rb (filesystem ?hx) (translate_path E ?hx (path ?hx)) = Raised_OSError"
    using open_rb_missing[OF assms(8) assms(9)] t by simp
  have d: "\<not> os_path_isdir (filesystem ?hx) (translate_path E ?hx (path ?hx))"
    using os_stat_not_dir[OF assms(9)] t by simp
  from assms(2) show ?thesis
  proof
    assume c: "cmd = ''GET''"
    show ?thesis
      using do_GET_missing[OF o d]
      by (simp only: handle_one_request_get[OF assms(1)[unfolded c] assms(3-6)] c)
  next
    assume c: "cmd = ''HEAD''"
    show ?thesis
      using do_HEAD_missing[OF o d]
      by (simp only: handle_one_request_head[OF assms(1)[unfolded c] assms(3-6)] c)
  qed
qed

lemma open_rb_null_byte: "CHR 0x00 \<in> set q \<Longrightarrow> open_rb fs q = Raised_ValueError"
  by (simp add: open_rb_def)

lemma os_stat_null_byte: "CHR 0x00 \<in> set q \<Longrightarrow> os_stat fs q = None"
  by (simp add: os_stat_def)

lemma null_byte_request:
  assumes "request_words req = [''GET'', p, version]"
    and "length (readline 65537 (rfile req)) \<le> 65536"
    and "parse_version version = Some vn" and "\<not> version_ge vn (2, 0)"
    and "header_lines req = Parsed hs" and "\<not> prefix ''//'' p"
    and "CHR 0x00 \<in> set (translate_path E h p)"
    and "\<not> suffix ''/'' (translate_path E h p)"
  shows "handle_one_request E h req = None"
proof -
  let ?hx = "accepted h (readline 65537 (rfile req)) ''GET'' p version hs"
  have t: "translate_path E ?hx (path ?hx) = translate_path E h p"
    using assms(6) translate_path_directory[of ?hx h E] by simp
  have o: "open_rb (filesystem ?hx) (translate_path E ?hx (path ?hx)) = Raised_ValueError"
    using open_rb_null_byte[OF assms(7)] t by simp
  have s: "\<not> suffix ''/'' (translate_path E ?hx (path ?hx))"
    using assms(8) t by simp
  have d: "\<not> os_path_isdir (filesystem ?hx) (translate_path E ?hx (path ?hx))"
    using os_stat_not_dir[OF os_stat_null_byte[OF assms(7)]] t by simp
  show ?thesis
    using do_GET_null_byte[OF o s d]
    by (simp only: handle_one_request_get[OF assms(1-5)])
qed

subsection \<open>A connection\<close>

text \<open>Every request leaves the connection marked for closing, so a connection serves one
  request.\<close>

lemma handle_single:
  "handle E h (req # reqs) = handle_one_request E (h\<lparr>close_connection := True\<rparr>) req"
  using handle_one_request_frame[of E "h\<lparr>close_connection := True\<rparr>" req]
  by (auto simp: handle_def)

lemma readline_Nil: "readline limit [] = []"
  by (simp add: readline_def)

lemma handle_Nil:
  "handle E h [] = Some (h\<lparr>close_connection := True, raw_requestline := []\<rparr>)"
  by (simp add: handle_def handle_one_request_def end_of_file_def readline_Nil)

lemma new_handler_fields [simp]:
  "stdout (new_handler w addr) = stdout w"
  "stderr (new_handler w addr) = stderr w"
  "extensions_map (new_handler w addr) = extensions_map w"
  "filesystem (new_handler w addr) = filesystem w"
  "cwd (new_handler w addr) = cwd w"
  "directory (new_handler w addr) = cwd w"
  "client_address (new_handler w addr) = addr"
  "headers_buffer (new_handler w addr) = None"
  "wfile (new_handler w addr) = []"
  "(new_handler w addr)\<lparr>close_connection := True\<rparr> = new_handler w addr"
  by (simp_all add: new_handler_def)

lemma handle_request_noblock_raised:
  assumes "handle_one_request E (new_handler w addr) req = None"
  shows "handle_request_noblock E w addr (req # reqs) = handle_error E w addr"
  using assms by (simp add: handle_request_noblock_def finish_request_def handle_single)

lemma handle_request_noblock_handled:
  assumes "handle_one_request E (new_handler w addr) req = Some h'"
  shows "handle_request_noblock E w addr (req # reqs) =
           w\<lparr>stdout := stdout h', stderr := stderr h', extensions_map := extensions_map h',
             filesystem := filesystem h', cwd := cwd h',
             delivered := delivered w @ [(addr, wfile h')]\<rparr>"
  using assms by (simp add: handle_request_noblock_def finish_request_def handle_single)

lemma handle_request_noblock_frame:
  "(\<exists>logs out. handle_request_noblock E w addr reqs =
       w\<lparr>stdout := stdout w @ logs, delivered := delivered w @ [(addr, out)]\<rparr>)
   \<or> handle_request_noblock E w addr reqs = handle_error E w addr"
proof (cases reqs)
  case Nil
  have "handle_request_noblock E w addr reqs =
          w\<lparr>stdout := stdout w @ [], delivered := delivered w @ [(addr, [])]\<rparr>"
    by (simp add: Nil handle_request_noblock_def finish_request_def handle_Nil)
  then show ?thesis by blast
next
  case (Cons req rest)
  from handle_one_request_frame[of E "new_handler w addr" req]
  show ?thesis
  proof (elim disjE exE conjE)
    assume "handle_one_request E (new_handler w addr) req = None"
    then show ?thesis
      unfolding Cons by (intro disjI2 handle_request_noblock_raised)
  next
    fix h'
    assume r: "handle_one_request E (new_handler w addr) req = Some h'"
      and f: "stderr h' = stderr (new_handler w addr)"
        "extensions_map h' = extensions_map (new_handler w addr)"
        "filesystem h' = filesystem (new_handler w addr)"
        "cwd h' = cwd (new_handler w addr)"
      and o: "prefix (stdout (new_handler w addr)) (stdout h')"
    from o obtain logs where l: "stdout h' = stdout w @ logs"
      by (auto simp: prefix_def)
    have "handle_request_noblock E w addr reqs =
            w\<lparr>stdout := stdout w @ logs, delivered := delivered w @ [(addr, wfile h')]\<rparr>"
      unfolding Cons handle_request_noblock_handled[OF r] using f l by simp
    then show ?thesis by blast
  qed
qed

lemma handle_request_noblock_fields:
  "extensions_map (handle_request_noblock E w addr reqs) = extensions_map w"
  "filesystem (handle_request_noblock E w addr reqs) = filesystem w"
  "cwd (handle_request_noblock E w addr reqs) = cwd w"
  using handle_request_noblock_frame[of E w addr reqs]
  by (auto simp: handle_error_def)

lemma serve_forever_fields:
  "extensions_map (snd (serve_forever E w evs)) = extensions_map w
   \<and> filesystem (snd (serve_forever E w evs)) = filesystem w
   \<and> cwd (snd (serve_forever E w evs)) = cwd w"
  by (induction E w evs rule: serve_forever.induct)
     (simp_all add: handle_request_noblock_fields)

subsection \<open>The example requests\<close>

lemma readline_request_of:
  assumes "LF \<notin> set line" and "length line + 2 \<le> limit"
  shows "readline limit (rfile (request_of line hs)) = line @ CRLF"
proof -
  have n: "\<And>x. x \<in> set line \<Longrightarrow> x \<noteq> LF"
    using assms(1) by auto
  have c: "CR \<noteq> LF"
    by (simp add: CR_def LF_def)
  have t: "takeWhile (\<lambda>c. c \<noteq> LF) (line @ [CR, LF]) = line @ [CR]"
    using n c by (simp add: takeWhile_append2)
  have d: "dropWhile (\<lambda>c. c \<noteq> LF) (line @ [CR, LF]) = [LF]"
    using n c by (simp add: dropWhile_append2)
  show ?thesis
    using assms(2) by (simp add: readline_def request_of_def CRLF_def t d)
qed

lemma rstrip_chars_CRLF:
  "rstrip_chars [CR, LF] (line @ CRLF) = rstrip_chars [CR, LF] line"
  by (simp add: rstrip_chars_def CRLF_def)

lemma request_of_line:
  assumes "LF \<notin> set line" and "length line \<le> 65534"
  shows "readline 65537 (rfile (request_of line hs)) = line @ CRLF"
    and "length (readline 65537 (rfile (request_of line hs))) \<le> 65536"
    and "request_words (request_of line hs) = split_ws (rstrip_chars [CR, LF] line)"
    and "header_lines (request_of line hs) = Parsed hs"
proof -
  show r: "readline 65537 (rfile (request_of line hs)) = line @ CRLF"
    using assms by (intro readline_request_of) simp_all
  show "length (readline 65537 (rfile (request_of line hs))) \<le> 65536"
    using assms(2) by (simp add: r CRLF_def)
  show "request_words (request_of line hs) = split_ws (rstrip_chars [CR, LF] line)"
    by (simp only: request_words_def r rstrip_chars_CRLF)
  show "header_lines (request_of line hs) = Parsed hs"
    by (simp add: request_of_def)
qed

lemma copyfileobj_short:
  assumes "src \<noteq> []" and "length src \<le> COPY_BUFSIZE"
  shows "copyfileobj src = [src]"
  using assms by (simp add: copyfileobj.simps[of src] copyfileobj.simps[of "[]"])

lemma example_handler_fields:
  "stdout example_handler = []"
  "stderr example_handler = []"
  "wfile example_handler = []"
  "headers_buffer example_handler = None"
  "client_address example_handler = ''127.0.0.1''"
  "filesystem example_handler = example_fs"
  by (simp_all add: example_handler_def example_world_def)

lemma version_1_1: "parse_version ''HTTP/1.1'' = Some (1, 1)"
  by code_simp

lemma version_2_0: "parse_version ''HTTP/2.0'' = Some (2, 0)"
  by code_simp

lemma below_2_0: "\<not> version_ge (1, 1) (2, 0)"
  by (simp add: version_ge_def)

lemma status_texts:
  "str_nat 200 = ''200''"
  "str_nat 304 = ''304''"
  "str_nat 404 = ''404''"
  "str_nat 505 = ''505''"
  by code_simp+

text \<open>\<open>GET /index.html HTTP/1.1\<close>: the file is there.\<close>

lemma index_request:
  "LF \<notin> set ''GET /index.html HTTP/1.1''"
  "length ''GET /index.html HTTP/1.1'' \<le> 65534"
  "split_ws (rstrip_chars [CR, LF] ''GET /index.html HTTP/1.1'')
     = [''GET'', ''/index.html'', ''HTTP/1.1'']"
  "rstrip_chars [CR, LF] ''GET /index.html HTTP/1.1'' = ''GET /index.html HTTP/1.1''"
  "\<not> prefix ''//'' ''/index.html''"
  "translate_path example_env example_handler ''/index.html'' = ''/srv/index.html''"
  "open_rb example_fs ''/srv/index.html'' = Opened ''<h1>Hi</h1>'' 1700000000"
  "guess_type example_env example_handler ''/srv/index.html'' = ''text/html''"
  by (simp add: LF_def, simp, code_simp+)

lemma index_headers:
  "file_headers example_env ''text/html'' (length ''<h1>Hi</h1>'') 1700000000 =
     [''HTTP/1.0 200 OK'', ''Server: SimpleHTTP/0.6 Python/3.11.10'',
      ''Date: Wed, 04 Nov 2026 08:00:00 GMT'', ''Content-type: text/html'',
      ''Content-Length: 11'', ''Last-Modified: Tue, 14 Nov 2023 22:13:20 GMT'',
      ''Access-Control-Allow-Origin: *'']"
  by code_simp

lemma index_unconditional:
  "\<not> not_modified_since example_env (example_handler\<lparr>headers := []\<rparr>) 1700000000"
  by (simp add: not_modified_since_def headers_contains_def)

lemma index_response:
  "handle_one_request example_env example_handler (request_of ''GET /index.html HTTP/1.1'' []) =
     Some (responded
             (accepted example_handler (''GET /index.html HTTP/1.1'' @ CRLF) ''GET''
                ''/index.html'' ''HTTP/1.1'' [])
             OK (file_headers example_env ''text/html'' (length ''<h1>Hi</h1>'') 1700000000)
             (copyfileobj ''<h1>Hi</h1>''))"
proof -
  let ?req = "request_of ''GET /index.html HTTP/1.1'' []"
  note r = request_of_line[OF index_request(1) index_request(2), of "[]"]
  have w: "request_words ?req = [''GET'', ''/index.html'', ''HTTP/1.1'']"
    by (simp only: r(3) index_request(3))
  have o: "open_rb (filesystem example_handler)
             (translate_path example_env example_handler ''/index.html'') =
           Opened ''<h1>Hi</h1>'' 1700000000"
    by (simp only: example_handler_fields index_request)
  show ?thesis
    using file_request[OF w r(2) version_1_1 below_2_0 r(4) index_request(5) o
        index_unconditional]
    by (simp only: r(1) index_request)
qed

text \<open>\<open>GET /nothing.html HTTP/1.1\<close>: there is no such file.\<close>

lemma nothing_request:
  "LF \<notin> set ''GET /nothing.html HTTP/1.1''"
  "length ''GET /nothing.html HTTP/1.1'' \<le> 65534"
  "split_ws (rstrip_chars [CR, LF] ''GET /nothing.html HTTP/1.1'')
     = [''GET'', ''/nothing.html'', ''HTTP/1.1'']"
  "rstrip_chars [CR, LF] ''GET /nothing.html HTTP/1.1'' = ''GET /nothing.html HTTP/1.1''"
  "\<not> prefix ''//'' ''/nothing.html''"
  "translate_path example_env example_handler ''/nothing.html'' = ''/srv/nothing.html''"
  "os_stat example_fs ''/srv/nothing.html'' = None"
  "CHR 0x00 \<notin> set ''/srv/nothing.html''"
  by (simp add: LF_def, simp, code_simp+)

lemma not_found_headers:
  "error_headers example_env NOT_FOUND ''File not found'' (description NOT_FOUND) =
     [''HTTP/1.0 404 File not found'', ''Server: SimpleHTTP/0.6 Python/3.11.10'',
      ''Date: Wed, 04 Nov 2026 08:00:00 GMT'', ''Connection: close'',
      ''Content-Type: text/html;charset=utf-8'', ''Content-Length: 335'',
      ''Access-Control-Allow-Origin: *'']"
  by code_simp

lemma nothing_response:
  "handle_one_request example_env example_handler
     (request_of ''GET /nothing.html HTTP/1.1'' []) =
     Some (error_sent example_env
             (accepted example_handler (''GET /nothing.html HTTP/1.1'' @ CRLF) ''GET''
                ''/nothing.html'' ''HTTP/1.1'' [])
             NOT_FOUND ''File not found'' (description NOT_FOUND))"
proof -
  let ?req = "request_of ''GET /nothing.html HTTP/1.1'' []"
  note r = request_of_line[OF nothing_request(1) nothing_request(2), of "[]"]
  have w: "request_words ?req = [''GET'', ''/nothing.html'', ''HTTP/1.1'']"
    by (simp only: r(3) nothing_request(3))
  have z: "CHR 0x00 \<notin> set (translate_path example_env example_handler ''/nothing.html'')"
    by (simp only: nothing_request(6) nothing_request(8)) simp
  have o: "os_stat (filesystem example_handler)
             (translate_path example_env example_handler ''/nothing.html'') = None"
    by (simp only: example_handler_fields nothing_request)
  show ?thesis
    using missing_request[OF w disjI1[OF refl] r(2) version_1_1 below_2_0 r(4)
        nothing_request(5) z o]
    by (simp only: r(1))
qed

text \<open>\<open>GET /index.html HTTP/2.0\<close>: a version that the server does not speak.\<close>

lemma version_2_request:
  "LF \<notin> set ''GET /index.html HTTP/2.0''"
  "length ''GET /index.html HTTP/2.0'' \<le> 65534"
  "split_ws (rstrip_chars [CR, LF] ''GET /index.html HTTP/2.0'')
     = [''GET'', ''/index.html'', ''HTTP/2.0'']"
  "rstrip_chars [CR, LF] ''GET /index.html HTTP/2.0'' = ''GET /index.html HTTP/2.0''"
  "drop 1 (dropWhile (\<lambda>c. c \<noteq> CHR ''/'') ''HTTP/2.0'') = ''2.0''"
  by (simp add: LF_def, simp, code_simp+)

lemma version_2_response:
  "handle_one_request example_env example_handler (request_of ''GET /index.html HTTP/2.0'' []) =
     Some (error_sent example_env
             (example_handler
                \<lparr>raw_requestline := ''GET /index.html HTTP/2.0'' @ CRLF, command := None,
                  request_version := default_request_version, close_connection := True,
                  requestline := ''GET /index.html HTTP/2.0''\<rparr>)
             HTTP_VERSION_NOT_SUPPORTED ''Invalid HTTP version (2.0)''
             (description HTTP_VERSION_NOT_SUPPORTED))"
proof -
  let ?req = "request_of ''GET /index.html HTTP/2.0'' []"
  note r = request_of_line[OF version_2_request(1) version_2_request(2), of "[]"]
  have w: "request_words ?req = [''GET'', ''/index.html'', ''HTTP/2.0'']"
    by (simp only: r(3) version_2_request(3))
  have l: "3 \<le> length [''GET'', ''/index.html'', ''HTTP/2.0'']"
    by simp
  have v: "parse_version (last [''GET'', ''/index.html'', ''HTTP/2.0'']) = Some (2, 0)"
    by (simp add: version_2_0)
  have g: "version_ge (2, 0) (2, 0)"
    by (simp add: version_ge_def)
  have la: "last [''GET'', ''/index.html'', ''HTTP/2.0''] = ''HTTP/2.0''"
    by simp
  have m: "''Invalid HTTP version ('' @ ''2.0'' @ '')'' = ''Invalid HTTP version (2.0)''"
    by simp
  show ?thesis
    using handle_one_request_version_rejected[OF w l r(2) v g, of example_env example_handler]
    by (simp only: r(1) rstrip_chars_CRLF version_2_request(4) version_2_request(5) la m)
qed

text \<open>\<open>GET /index.html HTTP/1.1\<close> with the header \<open>If-Modified-Since\<close>.\<close>

lemma index_conditional:
  "not_modified_since example_env
     (example_handler
        \<lparr>headers := [(''If-Modified-Since'', ''Wed, 04 Nov 2026 08:00:00 GMT'')]\<rparr>)
     1700000000"
  by code_simp

lemma not_modified_headers_example:
  "not_modified_headers example_env =
     [''HTTP/1.0 304 Not Modified'', ''Server: SimpleHTTP/0.6 Python/3.11.10'',
      ''Date: Wed, 04 Nov 2026 08:00:00 GMT'', ''Access-Control-Allow-Origin: *'']"
  by code_simp

lemma conditional_response:
  "handle_one_request example_env example_handler
     (request_of ''GET /index.html HTTP/1.1''
        [(''If-Modified-Since'', ''Wed, 04 Nov 2026 08:00:00 GMT'')]) =
     Some (responded
             (accepted example_handler (''GET /index.html HTTP/1.1'' @ CRLF) ''GET''
                ''/index.html'' ''HTTP/1.1''
                [(''If-Modified-Since'', ''Wed, 04 Nov 2026 08:00:00 GMT'')])
             NOT_MODIFIED (not_modified_headers example_env) [])"
proof -
  let ?hs = "[(''If-Modified-Since'', ''Wed, 04 Nov 2026 08:00:00 GMT'')]"
  let ?req = "request_of ''GET /index.html HTTP/1.1'' ?hs"
  note r = request_of_line[OF index_request(1) index_request(2), of ?hs]
  have w: "request_words ?req = [''GET'', ''/index.html'', ''HTTP/1.1'']"
    by (simp only: r(3) index_request(3))
  have o: "open_rb (filesystem example_handler)
             (translate_path example_env example_handler ''/index.html'') =
           Opened ''<h1>Hi</h1>'' 1700000000"
    by (simp only: example_handler_fields index_request)
  show ?thesis
    using unchanged_file_request[OF w r(2) version_1_1 below_2_0 r(4) index_request(5) o
        index_conditional]
    by (simp only: r(1))
qed

text \<open>A \<open>GET\<close> request for a path with a NUL character.\<close>

lemma null_byte_request_line:
  "LF \<notin> set (''GET /a'' @ [CHR 0x00] @ ''b HTTP/1.1'')"
  "length (''GET /a'' @ [CHR 0x00] @ ''b HTTP/1.1'') \<le> 65534"
  "split_ws (rstrip_chars [CR, LF] (''GET /a'' @ [CHR 0x00] @ ''b HTTP/1.1''))
     = [''GET'', ''/a'' @ [CHR 0x00] @ ''b'', ''HTTP/1.1'']"
  "\<not> prefix ''//'' (''/a'' @ [CHR 0x00] @ ''b'')"
  "translate_path example_env example_handler (''/a'' @ [CHR 0x00] @ ''b'')
     = ''/srv/a'' @ [CHR 0x00] @ ''b''"
  "\<not> suffix ''/'' (''/srv/a'' @ [CHR 0x00] @ ''b'')"
  "os_stat example_fs (''/srv/a'' @ [CHR 0x00] @ ''b'') = None"
  by (simp add: LF_def, simp, code_simp+)

lemma null_byte_raises:
  "handle_one_request example_env (new_handler example_world ''127.0.0.1'')
     (request_of (''GET /a'' @ [CHR 0x00] @ ''b HTTP/1.1'') []) = None"
proof -
  let ?req = "request_of (''GET /a'' @ [CHR 0x00] @ ''b HTTP/1.1'') []"
  note r = request_of_line[OF null_byte_request_line(1) null_byte_request_line(2), of "[]"]
  have w: "request_words ?req = [''GET'', ''/a'' @ [CHR 0x00] @ ''b'', ''HTTP/1.1'']"
    by (simp only: r(3) null_byte_request_line(3))
  have z: "CHR 0x00 \<in> set (translate_path example_env example_handler
                              (''/a'' @ [CHR 0x00] @ ''b''))"
    by (simp only: null_byte_request_line(5)) simp
  have s: "\<not> suffix ''/'' (translate_path example_env example_handler
                               (''/a'' @ [CHR 0x00] @ ''b''))"
    by (simp only: null_byte_request_line(5) null_byte_request_line(6)) simp
  show ?thesis
    using null_byte_request[OF w r(2) version_1_1 below_2_0 r(4) null_byte_request_line(4) z s]
    by (simp only: example_handler_def)
qed

text \<open>\<open>GET /.png HTTP/1.1\<close>: a file whose name is nothing but \<open>.png\<close>.\<close>

lemma dot_file_request:
  "LF \<notin> set ''GET /.png HTTP/1.1''"
  "length ''GET /.png HTTP/1.1'' \<le> 65534"
  "split_ws (rstrip_chars [CR, LF] ''GET /.png HTTP/1.1'') = [''GET'', ''/.png'', ''HTTP/1.1'']"
  "\<not> prefix ''//'' ''/.png''"
  "translate_path example_env example_handler ''/.png'' = ''/srv/.png''"
  "open_rb example_fs ''/srv/.png'' = Opened ''PNG'' 1700000000"
  "guess_type example_env example_handler ''/srv/.png'' = ''application/octet-stream''"
  by (simp add: LF_def, simp, code_simp+)

lemma dot_file_headers:
  "file_headers example_env ''application/octet-stream'' (length ''PNG'') 1700000000 =
     [''HTTP/1.0 200 OK'', ''Server: SimpleHTTP/0.6 Python/3.11.10'',
      ''Date: Wed, 04 Nov 2026 08:00:00 GMT'', ''Content-type: application/octet-stream'',
      ''Content-Length: 3'', ''Last-Modified: Tue, 14 Nov 2023 22:13:20 GMT'',
      ''Access-Control-Allow-Origin: *'']"
  by code_simp

lemma dot_file_response:
  "handle_one_request example_env example_handler (request_of ''GET /.png HTTP/1.1'' []) =
     Some (responded
             (accepted example_handler (''GET /.png HTTP/1.1'' @ CRLF) ''GET''
                ''/.png'' ''HTTP/1.1'' [])
             OK (file_headers example_env ''application/octet-stream'' (length ''PNG'') 1700000000)
             (copyfileobj ''PNG''))"
proof -
  let ?req = "request_of ''GET /.png HTTP/1.1'' []"
  note r = request_of_line[OF dot_file_request(1) dot_file_request(2), of "[]"]
  have w: "request_words ?req = [''GET'', ''/.png'', ''HTTP/1.1'']"
    by (simp only: r(3) dot_file_request(3))
  have o: "open_rb (filesystem example_handler)
             (translate_path example_env example_handler ''/.png'') =
           Opened ''PNG'' 1700000000"
    by (simp only: example_handler_fields dot_file_request)
  show ?thesis
    using file_request[OF w r(2) version_1_1 below_2_0 r(4) dot_file_request(4) o
        index_unconditional]
    by (simp only: r(1) dot_file_request)
qed

lemma short_files:
  "copyfileobj ''<h1>Hi</h1>'' = [''<h1>Hi</h1>'']"
  "copyfileobj ''PNG'' = [''PNG'']"
  \<open>copyfileobj ''{"a":1}'' = [''{"a":1}'']\<close>
  by (simp_all add: copyfileobj_short COPY_BUFSIZE_def)

text \<open>The log lines of the example handler.\<close>

lemma example_request_log:
  assumes "rstrip_chars [CR, LF] line = line"
  shows \<open>request_log (accepted example_handler (line @ CRLF) cmd p version hs) code =
           ''127.0.0.1 - "'' @ line @ ''" '' @ str_nat (status_value code) @ '' -'' @ [LF]\<close>
  by (simp only: request_log_def accepted_fields example_handler_fields rstrip_chars_CRLF assms) simp

lemma example_error_log:
  "error_log (accepted example_handler line cmd p version hs) code m =
     ''127.0.0.1 - code '' @ str_nat (status_value code) @ '', message '' @ m @ [LF]"
  by (simp only: error_log_def accepted_fields example_handler_fields) simp

section \<open>The claims about requests\<close>










end
